theory Spec2Isabelle
  imports Main "HOL-Library.Word"
begin

section \<open>Animation scene: controller runtime\<close>

text \<open>
  The embedding follows \<^verbatim>\<open>src/animation/animation_scene.cpp\<close>. Pointers are
  options of addresses, a null pointer is \<open>None\<close>. Floats never take part in
  arithmetic in the functions embedded here: a float is carried as its 32-bit pattern.
  Every assertion failure, null dereference and out-of-range array access of the source
  is a \<open>fault\<close> value of the model.
\<close>

type_synonym u8 = "8 word"
type_synonym u32 = "32 word"
type_synonym entity = int
type_synonym node = nat
type_synonym res_ptr = nat

datatype fault = NullDeref | OutOfBounds | AssertFailed | ReadPastEnd | OutOfFuel

text \<open>\<^verbatim>\<open>Anim::InputDecl\<close>: a fixed array of typed slots. The header
  \<^verbatim>\<open>animation/controller.h\<close> is not part of the excerpt; the fields are the ones the
  scene reads (\<^verbatim>\<open>type\<close>, \<^verbatim>\<open>offset\<close>, \<^verbatim>\<open>name\<close>), and the result of
  \<^verbatim>\<open>getSize()\<close> is the field \<open>decl_size\<close>.\<close>

datatype input_type = Input_EMPTY | Input_BOOL | Input_INT | Input_FLOAT

text \<open>\<^verbatim>\<open>Resource::State\<close> of \<^verbatim>\<open>src/engine/core/resource.h\<close>.\<close>

datatype res_state = State_EMPTY | State_READY | State_FAILURE

record input_slot =
  slot_type :: input_type
  offset :: nat
  slot_name :: string

record input_decl =
  inputs :: "input_slot list"
  decl_size :: nat

record animation_set_entry =
  entry_set :: int
  entry_hash :: u32
  entry_animation :: nat

record controller_resource =
  m_current_state :: res_state
  m_input_decl :: input_decl
  m_sets_names :: "string list"
  m_animation_set :: "animation_set_entry list"

definition isReady :: "controller_resource \<Rightarrow> bool" where
  "isReady res = (m_current_state res = State_READY)"

text \<open>\<^verbatim>\<open>Controller::IK\<close>; only the weight is inspected by \<^verbatim>\<open>updateController\<close>.\<close>

record ik_chain =
  weight :: u32
  max_iterations :: int
  bones_count :: int

record controller =
  ctrl_entity :: entity
  resource :: "res_ptr option"
  root :: "node option"
  default_set :: u32
  input :: "u8 list"
  animations :: "(u32 \<times> nat) list"
  inverse_kinematics :: "ik_chain list"

text \<open>The external collaborators of one tick: the resource heap, the polymorphic node
  (\<^verbatim>\<open>Anim::ComponentInstance\<close>, whose \<^verbatim>\<open>update\<close> returns the node to use from now
  on), the render scene's pose buffers and the hash function.\<close>

record env =
  resources :: "res_ptr \<Rightarrow> controller_resource"
  createInstance :: "res_ptr \<Rightarrow> node"
  node_update :: "node \<Rightarrow> u32 \<Rightarrow> u8 list \<Rightarrow> node"
  getModelInstanceComponent :: "entity \<Rightarrow> int option"
  lockPose :: "int \<Rightarrow> bool"
  crc32 :: "string \<Rightarrow> u32"

text \<open>The calls a controller makes on its collaborators, in the order made.\<close>

datatype call =
    Delete "node option"
  | CreateInstance res_ptr node
  | Enter node
  | Update node
  | GetRelativePose int
  | FillPose node int
  | ComputeAbsolute int
  | UpdateIK nat
  | UnlockPose int
  | LogWarning string

definition resize :: "u8 list \<Rightarrow> nat \<Rightarrow> u8 list" where
  "resize xs n = take n xs @ replicate (n - length xs) 0"

definition setMemory_zero :: "u8 list \<Rightarrow> u8 list" where
  "setMemory_zero xs = replicate (length xs) 0"

fun find_set_idx :: "(string \<Rightarrow> u32) \<Rightarrow> u32 \<Rightarrow> string list \<Rightarrow> nat \<Rightarrow> nat" where
  "find_set_idx h d [] i = 0"
| "find_set_idx h d (n # ns) i = (if d = h n then i else find_set_idx h d ns (Suc i))"

definition bind_animation_set ::
  "animation_set_entry list \<Rightarrow> nat \<Rightarrow> (u32 \<times> nat) list \<Rightarrow> (u32 \<times> nat) list" where
  "bind_animation_set es set_idx anims =
     anims @ map (\<lambda>e. (entry_hash e, entry_animation e))
                 (filter (\<lambda>e. entry_set e = int set_idx) es)"

text \<open>\<^verbatim>\<open>initControllerRuntime\<close>, lines 849-880. The result is the returned flag, the
  controller and the calls made.\<close>

definition initControllerRuntime ::
  "env \<Rightarrow> controller \<Rightarrow> fault + (bool \<times> controller \<times> call list)" where
  "initControllerRuntime e c =
     (case resource c of
        None \<Rightarrow> Inl NullDeref
      | Some r \<Rightarrow>
          let res = resources e r in
          if \<not> isReady res then Inr (False, c, [])
          else if decl_size (m_input_decl res) = 0 then Inr (False, c, [])
          else
            let n = createInstance e r;
                set_idx = find_set_idx (crc32 e) (default_set c) (m_sets_names res) 0;
                c1 = c\<lparr>root := Some n,
                       input := resize (input c) (decl_size (m_input_decl res))\<rparr>;
                c2 = c1\<lparr>animations :=
                          bind_animation_set (m_animation_set res) set_idx (animations c1)\<rparr>;
                c3 = c2\<lparr>input := setMemory_zero (input c2)\<rparr>
            in Inr (True, c3, [CreateInstance r n, Enter n]))"

definition float_is_zero :: "u32 \<Rightarrow> bool" where
  "float_is_zero w = (w = 0 \<or> w = 0x80000000)"

fun ik_calls :: "ik_chain list \<Rightarrow> nat \<Rightarrow> call list" where
  "ik_calls [] i = []"
| "ik_calls (k # ks) i = (if float_is_zero (weight k) then [] else UpdateIK i # ik_calls ks (Suc i))"

text \<open>The part of \<^verbatim>\<open>updateController\<close> after the root is known to exist,
  lines 922-952.\<close>

definition update_and_pose :: "env \<Rightarrow> controller \<Rightarrow> u32 \<Rightarrow> node \<Rightarrow> controller \<times> call list" where
  "update_and_pose e c time_delta n =
     (let n' = node_update e n time_delta (input c);
          c' = c\<lparr>root := Some n'\<rparr>
      in case getModelInstanceComponent e (ctrl_entity c') of
           None \<Rightarrow> (c', [Update n])
         | Some mi \<Rightarrow>
             if \<not> lockPose e mi then (c', [Update n])
             else (c', [Update n, GetRelativePose mi, FillPose n' mi, ComputeAbsolute mi]
                       @ ik_calls (inverse_kinematics c') 0 @ [UnlockPose mi]))"

text \<open>\<^verbatim>\<open>updateController\<close>, lines 911-953.\<close>

definition updateController :: "env \<Rightarrow> controller \<Rightarrow> u32 \<Rightarrow> fault + (controller \<times> call list)" where
  "updateController e c time_delta =
     (case resource c of
        None \<Rightarrow> Inl NullDeref
      | Some r \<Rightarrow>
          if \<not> isReady (resources e r) then Inr (c\<lparr>root := None\<rparr>, [Delete (root c)])
          else
            (case root c of
               Some n \<Rightarrow> Inr (update_and_pose e c time_delta n)
             | None \<Rightarrow>
                 (case initControllerRuntime e c of
                    Inl f \<Rightarrow> Inl f
                  | Inr (ok, c1, tr) \<Rightarrow>
                      if \<not> ok then Inr (c1, tr)
                      else
                        (case root c1 of
                           None \<Rightarrow> Inl NullDeref
                         | Some n \<Rightarrow>
                             (let (c2, tr2) = update_and_pose e c1 time_delta n
                              in Inr (c2, tr @ tr2))))))"

text \<open>A number of ticks on one controller, stopping at the first fault.\<close>

fun ticks :: "env \<Rightarrow> u32 list \<Rightarrow> controller \<Rightarrow> fault + (controller \<times> call list)" where
  "ticks e [] c = Inr (c, [])"
| "ticks e (dt # dts) c =
     (case updateController e c dt of
        Inl f \<Rightarrow> Inl f
      | Inr (c1, tr) \<Rightarrow>
          (case ticks e dts c1 of
             Inl f \<Rightarrow> Inl f
           | Inr (c2, tr2) \<Rightarrow> Inr (c2, tr @ tr2)))"

text \<open>\<^verbatim>\<open>stopGame\<close>, lines 396-404, on one controller: the root is deleted and nulled,
  nothing else is touched.\<close>

definition stopGame_controller :: "controller \<Rightarrow> controller \<times> call list" where
  "stopGame_controller c = (c\<lparr>root := None\<rparr>, [Delete (root c)])"

text \<open>\<^verbatim>\<open>onControllerResourceChanged\<close>, lines 477-490: the body of the loop on one
  controller, then the loop over \<^verbatim>\<open>m_controllers\<close>.\<close>

definition resource_changed_controller ::
  "res_state \<Rightarrow> res_ptr \<Rightarrow> controller \<Rightarrow> controller \<times> call list" where
  "resource_changed_controller new_state r c =
     (if resource c = Some r \<and> root c \<noteq> None \<and> new_state \<noteq> State_READY
      then (c\<lparr>root := None, default_set := 0, animations := [], input := []\<rparr>,
            [Delete (root c)])
      else (c, []))"

fun onControllerResourceChanged ::
  "res_state \<Rightarrow> res_ptr \<Rightarrow> (entity \<times> controller) list \<Rightarrow> (entity \<times> controller) list \<times> call list" where
  "onControllerResourceChanged new_state r [] = ([], [])"
| "onControllerResourceChanged new_state r ((k, c) # cs) =
     (let (c', tr) = resource_changed_controller new_state r c;
          (cs', tr') = onControllerResourceChanged new_state r cs
      in ((k, c') # cs', tr @ tr'))"

subsection \<open>Input setters\<close>

text \<open>\<^verbatim>\<open>m_controllers\<close> is an associative array keyed by entity; \<^verbatim>\<open>get\<close> of a key that
  is absent is an assertion failure.\<close>

fun ctrl_get :: "(entity \<times> controller) list \<Rightarrow> entity \<Rightarrow> fault + controller" where
  "ctrl_get [] k = Inl AssertFailed"
| "ctrl_get ((k', c) # cs) k = (if k' = k then Inr c else ctrl_get cs k)"

fun ctrl_put :: "(entity \<times> controller) list \<Rightarrow> entity \<Rightarrow> controller \<Rightarrow> (entity \<times> controller) list" where
  "ctrl_put [] k c = []"
| "ctrl_put ((k', c') # cs) k c = (if k' = k then (k', c) # cs else (k', c') # ctrl_put cs k c)"

text \<open>A store through a pointer into the input buffer: \<^verbatim>\<open>*(T*)&controller.input[off] = v\<close>.
  The bytes of \<open>v\<close> replace the bytes at \<open>off\<close>; a store that does not fit is out of
  bounds.\<close>

definition write_bytes :: "u8 list \<Rightarrow> nat \<Rightarrow> u8 list \<Rightarrow> fault + u8 list" where
  "write_bytes buf off bs =
     (if off + length bs \<le> length buf
      then Inr (take off buf @ bs @ drop (off + length bs) buf)
      else Inl OutOfBounds)"

text \<open>An \<^verbatim>\<open>int\<close> as the log stream prints it, in decimal.\<close>

function decimal_of_nat :: "nat \<Rightarrow> string" where
  "decimal_of_nat n =
     (if n < 10 then [''0123456789'' ! n]
      else decimal_of_nat (n div 10) @ [''0123456789'' ! (n mod 10)])"
  by pat_completeness auto
termination
  by (relation "measure id") auto

definition decimal_of_int :: "int \<Rightarrow> string" where
  "decimal_of_int i = (if i < 0 then ''-'' @ decimal_of_nat (nat (- i)) else decimal_of_nat (nat i))"

text \<open>Values in memory, least significant byte first.\<close>

definition bytes_of_u32 :: "u32 \<Rightarrow> u8 list" where
  "bytes_of_u32 w = [ucast w, ucast (drop_bit 8 w), ucast (drop_bit 16 w), ucast (drop_bit 24 w)]"

definition u32_of_bytes :: "u8 list \<Rightarrow> u32" where
  "u32_of_bytes bs =
     (case bs of
        [a, b, c, d] \<Rightarrow>
          or (ucast a) (or (push_bit 8 (ucast b)) (or (push_bit 16 (ucast c)) (push_bit 24 (ucast d))))
      | _ \<Rightarrow> 0)"

definition bytes_of_bool :: "bool \<Rightarrow> u8 list" where
  "bytes_of_bool b = [if b then 1 else 0]"

text \<open>\<^verbatim>\<open>setControllerFloatInput\<close>, lines 299-317. The index is tested against
  \<^verbatim>\<open>lengthOf(decl.inputs)\<close> at line 308 and the call returns without a log entry.\<close>

definition setControllerFloatInput ::
  "env \<Rightarrow> (entity \<times> controller) list \<Rightarrow> entity \<Rightarrow> int \<Rightarrow> u32
     \<Rightarrow> fault + ((entity \<times> controller) list \<times> call list)" where
  "setControllerFloatInput e cs cmp input_idx v =
     (case ctrl_get cs cmp of
        Inl f \<Rightarrow> Inl f
      | Inr c \<Rightarrow>
          if root c = None
          then Inr (cs, [LogWarning (''Trying to set input '' @ decimal_of_int input_idx
                                     @ '' before the controller is ready'')])
          else
            (case resource c of
               None \<Rightarrow> Inl NullDeref
             | Some r \<Rightarrow>
                 let decl = m_input_decl (resources e r) in
                 if input_idx < 0 \<or> input_idx \<ge> int (length (inputs decl)) then Inr (cs, [])
                 else
                   let slot = inputs decl ! nat input_idx in
                   if slot_type slot = Input_FLOAT
                   then (case write_bytes (input c) (offset slot) (bytes_of_u32 v) of
                           Inl f \<Rightarrow> Inl f
                         | Inr buf \<Rightarrow> Inr (ctrl_put cs cmp (c\<lparr>input := buf\<rparr>), []))
                   else Inr (cs, [LogWarning (''Trying to set float to '' @ slot_name slot)])))"

text \<open>\<^verbatim>\<open>setControllerIntInput\<close>, lines 320-337. The source indexes
  \<^verbatim>\<open>decl.inputs\<close>, a C array, with no test of the index: an index outside the array is
  an out-of-bounds access.\<close>

definition setControllerIntInput ::
  "env \<Rightarrow> (entity \<times> controller) list \<Rightarrow> entity \<Rightarrow> int \<Rightarrow> u32
     \<Rightarrow> fault + ((entity \<times> controller) list \<times> call list)" where
  "setControllerIntInput e cs cmp input_idx v =
     (case ctrl_get cs cmp of
        Inl f \<Rightarrow> Inl f
      | Inr c \<Rightarrow>
          if root c = None
          then Inr (cs, [LogWarning (''Trying to set input '' @ decimal_of_int input_idx
                                     @ '' before the controller is ready'')])
          else
            (case resource c of
               None \<Rightarrow> Inl NullDeref
             | Some r \<Rightarrow>
                 let decl = m_input_decl (resources e r) in
                 if input_idx < 0 \<or> input_idx \<ge> int (length (inputs decl)) then Inl OutOfBounds
                 else
                   let slot = inputs decl ! nat input_idx in
                   if slot_type slot = Input_INT
                   then (case write_bytes (input c) (offset slot) (bytes_of_u32 v) of
                           Inl f \<Rightarrow> Inl f
                         | Inr buf \<Rightarrow> Inr (ctrl_put cs cmp (c\<lparr>input := buf\<rparr>), []))
                   else Inr (cs, [LogWarning (''Trying to set int to '' @ slot_name slot)])))"

text \<open>\<^verbatim>\<open>setControllerBoolInput\<close>, lines 340-357. The source indexes
  \<^verbatim>\<open>decl.inputs\<close>, a C array, with no test of the index: an index outside the array is
  an out-of-bounds access.\<close>

definition setControllerBoolInput ::
  "env \<Rightarrow> (entity \<times> controller) list \<Rightarrow> entity \<Rightarrow> int \<Rightarrow> bool
     \<Rightarrow> fault + ((entity \<times> controller) list \<times> call list)" where
  "setControllerBoolInput e cs cmp input_idx v =
     (case ctrl_get cs cmp of
        Inl f \<Rightarrow> Inl f
      | Inr c \<Rightarrow>
          if root c = None
          then Inr (cs, [LogWarning (''Trying to set input '' @ decimal_of_int input_idx
                                     @ '' before the controller is ready'')])
          else
            (case resource c of
               None \<Rightarrow> Inl NullDeref
             | Some r \<Rightarrow>
                 let decl = m_input_decl (resources e r) in
                 if input_idx < 0 \<or> input_idx \<ge> int (length (inputs decl)) then Inl OutOfBounds
                 else
                   let slot = inputs decl ! nat input_idx in
                   if slot_type slot = Input_BOOL
                   then (case write_bytes (input c) (offset slot) (bytes_of_bool v) of
                           Inl f \<Rightarrow> Inl f
                         | Inr buf \<Rightarrow> Inr (ctrl_put cs cmp (c\<lparr>input := buf\<rparr>), []))
                   else Inr (cs, [LogWarning (''Trying to set bool to '' @ slot_name slot)])))"

subsection \<open>Event stream\<close>

text \<open>The layout of \<^verbatim>\<open>Anim::SetInputEvent\<close>: its declaration
  (\<^verbatim>\<open>animation/events.h\<close>) is not part of the excerpt, so its size and the decoding of
  the fields \<^verbatim>\<open>processEventStream\<close> reads are parameters. \<^verbatim>\<open>b_value\<close> is the byte
  that holds the \<^verbatim>\<open>bool\<close>: line 1137 copies it as it is.\<close>

record event_layout =
  sizeof_SetInputEvent :: nat
  ev_input_idx :: "u8 list \<Rightarrow> int"
  ev_b_value :: "u8 list \<Rightarrow> u8"
  ev_i_value :: "u8 list \<Rightarrow> u32"
  ev_f_value :: "u8 list \<Rightarrow> u32"

text \<open>Lines 1128-1142: a \<^verbatim>\<open>set_input\<close> event is applied to the controller it names.
  \<^verbatim>\<open>decl.inputs[event.input_idx]\<close> is indexed with no test, and a slot whose type is none
  of the three is \<^verbatim>\<open>ASSERT(false)\<close>.\<close>

definition set_input_event ::
  "env \<Rightarrow> event_layout \<Rightarrow> (entity \<times> controller) list \<Rightarrow> u32 \<Rightarrow> u8 list
     \<Rightarrow> fault + (entity \<times> controller) list" where
  "set_input_event e L cs cmp ev =
     (case ctrl_get cs (sint cmp) of
        Inl f \<Rightarrow> Inl f
      | Inr ctrl \<Rightarrow>
          (case resource ctrl of
             None \<Rightarrow> Inl NullDeref
           | Some r \<Rightarrow>
               if isReady (resources e r) then
                 let decl = m_input_decl (resources e r);
                     idx = ev_input_idx L ev
                 in if idx < 0 \<or> idx \<ge> int (length (inputs decl)) then Inl OutOfBounds
                    else
                      let slot = inputs decl ! nat idx;
                          stored =
                            (case slot_type slot of
                               Input_BOOL \<Rightarrow> write_bytes (input ctrl) (offset slot) [ev_b_value L ev]
                             | Input_INT \<Rightarrow> write_bytes (input ctrl) (offset slot) (bytes_of_u32 (ev_i_value L ev))
                             | Input_FLOAT \<Rightarrow> write_bytes (input ctrl) (offset slot) (bytes_of_u32 (ev_f_value L ev))
                             | Input_EMPTY \<Rightarrow> Inl AssertFailed)
                      in (case stored of
                            Inl f \<Rightarrow> Inl f
                          | Inr buf \<Rightarrow> Inr (ctrl_put cs (sint cmp) (ctrl\<lparr>input := buf\<rparr>)))
               else Inr cs))"

text \<open>\<^verbatim>\<open>processEventStream\<close>, lines 1114-1149. The blob is the bytes from its position
  to its end, so \<^verbatim>\<open>getPosition() < getSize()\<close> is: bytes are left.

  Modelled from the spec: \<^verbatim>\<open>InputBlob\<close> (\<^verbatim>\<open>engine/blob.h\<close>) is not part of the excerpt. A
  record is read as \<^verbatim>\<open>[type_hash: u32][owner_component_id: u32][payload_size: u8]\<close> followed
  by the payload; a read that needs more bytes than are left is the fault
  \<open>ReadPastEnd\<close>, and \<^verbatim>\<open>skip\<close> moves the position by the given count, at most to the
  end.\<close>

function processEventStream ::
  "env \<Rightarrow> event_layout \<Rightarrow> u8 list \<Rightarrow> (entity \<times> controller) list
     \<Rightarrow> fault + (entity \<times> controller) list" where
  "processEventStream e L blob cs =
     (if blob = [] then Inr cs
      else if length blob < 9 then Inl ReadPastEnd
      else
        let type = u32_of_bytes (take 4 blob);
            cmp = u32_of_bytes (take 4 (drop 4 blob));
            size = blob ! 8;
            rest = drop 9 blob
        in if type = crc32 e ''set_input'' then
             (if length rest < sizeof_SetInputEvent L then Inl ReadPastEnd
              else
                (case set_input_event e L cs cmp (take (sizeof_SetInputEvent L) rest) of
                   Inl f \<Rightarrow> Inl f
                 | Inr cs' \<Rightarrow> processEventStream e L (drop (sizeof_SetInputEvent L) rest) cs'))
           else processEventStream e L (drop (unat size) rest) cs)"
  by pat_completeness auto
termination
  by (relation "measure (\<lambda>(e, L, blob, cs). length blob)") auto

text \<open>The stream as the spec describes it: a sequence of records, each framed as
  \<^verbatim>\<open>[type_hash][owner_component][payload_size][payload]\<close>, and their dispatch one after
  the other in that order, where a record is applied when its type is \<^verbatim>\<open>set_input\<close>
  and passed over otherwise.\<close>

record event_record =
  type_hash :: u32
  owner_component :: u32
  payload :: "u8 list"

definition frame :: "event_record \<Rightarrow> u8 list" where
  "frame r = bytes_of_u32 (type_hash r) @ bytes_of_u32 (owner_component r)
             @ [of_nat (length (payload r))] @ payload r"

definition stream_of :: "event_record list \<Rightarrow> u8 list" where
  "stream_of rs = concat (map frame rs)"

text \<open>A record is well formed when its payload has the size its size byte can hold and,
  for a \<^verbatim>\<open>set_input\<close> record, the size of the event: the drain reads the event
  itself there, not \<^verbatim>\<open>payload_size\<close> bytes.\<close>

definition well_formed_record :: "env \<Rightarrow> event_layout \<Rightarrow> event_record \<Rightarrow> bool" where
  "well_formed_record e L r =
     (length (payload r) < 256 \<and>
      (if type_hash r = crc32 e ''set_input'' then length (payload r) = sizeof_SetInputEvent L else True))"

text \<open>The value of an event as the bytes of a slot of the given type: the byte of the
  bool, the four bytes of the int or of the float; none for a slot without a type.\<close>

definition event_value :: "event_layout \<Rightarrow> input_type \<Rightarrow> u8 list \<Rightarrow> u8 list option" where
  "event_value L t ev =
     (case t of
        Input_EMPTY \<Rightarrow> None
      | Input_BOOL \<Rightarrow> Some [ev_b_value L ev]
      | Input_INT \<Rightarrow> Some (bytes_of_u32 (ev_i_value L ev))
      | Input_FLOAT \<Rightarrow> Some (bytes_of_u32 (ev_f_value L ev)))"

text \<open>The buffer with the bytes \<open>v\<close> in place of the bytes at \<open>off\<close>.\<close>

definition store_at :: "u8 list \<Rightarrow> nat \<Rightarrow> u8 list \<Rightarrow> u8 list" where
  "store_at buf off v = take off buf @ v @ drop (off + length v) buf"

text \<open>The dispatch of one record as the spec words it: a record of a type other than
  \<^verbatim>\<open>set_input\<close> is passed over; a \<^verbatim>\<open>set_input\<close> record writes the value of the event
  into the input slot it names of the controller that owns it, as the declared type of
  the slot says, when the resource of the controller is ready, and changes nothing when
  it is not. A record that names no controller, no slot of the declaration, a slot
  without a type, or a slot outside the buffer is a fault.\<close>

definition dispatch_record ::
  "env \<Rightarrow> event_layout \<Rightarrow> (entity \<times> controller) list \<Rightarrow> event_record
     \<Rightarrow> fault + (entity \<times> controller) list" where
  "dispatch_record e L cs r =
     (if type_hash r \<noteq> crc32 e ''set_input'' then Inr cs
      else
        (case ctrl_get cs (sint (owner_component r)) of
           Inl f \<Rightarrow> Inl f
         | Inr c \<Rightarrow>
             (case map_option (resources e) (resource c) of
                None \<Rightarrow> Inl NullDeref
              | Some res \<Rightarrow>
                  if \<not> isReady res then Inr cs
                  else
                    let slots = inputs (m_input_decl res);
                        i = ev_input_idx L (payload r)
                    in if \<not> (0 \<le> i \<and> i < int (length slots)) then Inl OutOfBounds
                       else
                         (case event_value L (slot_type (slots ! nat i)) (payload r) of
                            None \<Rightarrow> Inl AssertFailed
                          | Some v \<Rightarrow>
                              if offset (slots ! nat i) + length v \<le> length (input c)
                              then Inr (ctrl_put cs (sint (owner_component r))
                                          (c\<lparr>input := store_at (input c) (offset (slots ! nat i)) v\<rparr>))
                              else Inl OutOfBounds))))"

text \<open>The record is a \<^verbatim>\<open>set_input\<close> record for the controller \<open>c\<close>, whose resource is
  ready, and names the slot \<open>slot\<close> of its input declaration.\<close>

definition sets_slot ::
  "env \<Rightarrow> event_layout \<Rightarrow> (entity \<times> controller) list \<Rightarrow> event_record \<Rightarrow> controller \<Rightarrow> input_slot
     \<Rightarrow> bool" where
  "sets_slot e L cs r c slot =
     (type_hash r = crc32 e ''set_input'' \<and>
      ctrl_get cs (sint (owner_component r)) = Inr c \<and>
      (case resource c of
         None \<Rightarrow> False
       | Some ra \<Rightarrow>
           isReady (resources e ra) \<and>
           0 \<le> ev_input_idx L (payload r) \<and>
           ev_input_idx L (payload r) < int (length (inputs (m_input_decl (resources e ra)))) \<and>
           slot = inputs (m_input_decl (resources e ra)) ! nat (ev_input_idx L (payload r))))"

fun dispatch_in_order ::
  "env \<Rightarrow> event_layout \<Rightarrow> (entity \<times> controller) list \<Rightarrow> event_record list
     \<Rightarrow> fault + (entity \<times> controller) list" where
  "dispatch_in_order e L cs [] = Inr cs"
| "dispatch_in_order e L cs (r # rs) =
     (case dispatch_record e L cs r of
        Inl f \<Rightarrow> Inl f
      | Inr cs' \<Rightarrow> dispatch_in_order e L cs' rs)"

section \<open>Physics scene: ragdoll bone tree\<close>

text \<open>
  The embedding follows \<^verbatim>\<open>src/physics/physics_scene.cpp\<close>. Bones live in an arena: a
  \<^verbatim>\<open>RagdollBone*\<close> is the index of the bone in the arena, \<^verbatim>\<open>LUMIX_NEW\<close> appends to it,
  and the functions embedded here never free a bone. Transforms, limits and shapes are
  floats that are only copied; they are carried as lists of 32-bit patterns. What the
  physics SDK and the float geometry compute is a parameter (\<open>sdk\<close>).
\<close>

type_synonym bone_ptr = nat
type_synonym floats = "u32 list"

text \<open>\<^verbatim>\<open>physx::PxJointConcreteType\<close>, and the joint classes the ragdoll code names with
  the parameters it reads and writes.\<close>

datatype joint_type = eSPHERICAL | eREVOLUTE | ePRISMATIC | eFIXED | eDISTANCE | eD6 | eCONTACT

datatype joint_class =
    PxFixedJoint
  | PxDistanceJoint u32 u32 u32 u32 u32 u32
  | PxRevoluteJoint floats u32
  | PxSphericalJoint floats u32

record px_joint =
  joint_class :: joint_class
  actor0 :: bone_ptr
  actor1 :: bone_ptr
  local_pose0 :: floats
  local_pose1 :: floats

fun getConcreteType :: "px_joint \<Rightarrow> joint_type" where
  "getConcreteType j =
     (case joint_class j of
        PxFixedJoint \<Rightarrow> eFIXED
      | PxDistanceJoint a b c d f g \<Rightarrow> eDISTANCE
      | PxRevoluteJoint l f \<Rightarrow> eREVOLUTE
      | PxSphericalJoint l f \<Rightarrow> eSPHERICAL)"

datatype px_geometry = PxBoxGeometry floats | PxCapsuleGeometry u32 u32

record px_actor =
  global_pose :: floats
  shape :: px_geometry

text \<open>\<^verbatim>\<open>struct RagdollBone\<close>, lines 63-79, and \<^verbatim>\<open>struct Ragdoll\<close> with the arena.\<close>

record ragdoll_bone =
  pose_bone_idx :: int
  actor :: px_actor
  parent_joint :: "px_joint option"
  child :: "bone_ptr option"
  "next" :: "bone_ptr option"
  prev :: "bone_ptr option"
  parent :: "bone_ptr option"
  bind_transform :: floats

record ragdoll =
  heap :: "ragdoll_bone list"
  ragdoll_root :: "bone_ptr option"

record sdk =
  joint_frames :: "floats \<Rightarrow> floats \<Rightarrow> floats \<times> floats"
  default_limit :: floats
  new_actor :: "int \<Rightarrow> px_actor"
  new_bind_transform :: "int \<Rightarrow> floats"

text \<open>Stores through a bone pointer: \<^verbatim>\<open>a->child = v\<close> and so on.\<close>

definition set_child :: "ragdoll_bone list \<Rightarrow> bone_ptr \<Rightarrow> bone_ptr option \<Rightarrow> ragdoll_bone list" where
  "set_child h a v = h[a := (h ! a)\<lparr>child := v\<rparr>]"

definition set_next :: "ragdoll_bone list \<Rightarrow> bone_ptr \<Rightarrow> bone_ptr option \<Rightarrow> ragdoll_bone list" where
  "set_next h a v = h[a := (h ! a)\<lparr>next := v\<rparr>]"

definition set_prev :: "ragdoll_bone list \<Rightarrow> bone_ptr \<Rightarrow> bone_ptr option \<Rightarrow> ragdoll_bone list" where
  "set_prev h a v = h[a := (h ! a)\<lparr>prev := v\<rparr>]"

definition set_parent :: "ragdoll_bone list \<Rightarrow> bone_ptr \<Rightarrow> bone_ptr option \<Rightarrow> ragdoll_bone list" where
  "set_parent h a v = h[a := (h ! a)\<lparr>parent := v\<rparr>]"

definition set_parent_joint :: "ragdoll_bone list \<Rightarrow> bone_ptr \<Rightarrow> px_joint option \<Rightarrow> ragdoll_bone list" where
  "set_parent_joint h a v = h[a := (h ! a)\<lparr>parent_joint := v\<rparr>]"

text \<open>\<^verbatim>\<open>if (p) p->prev = v\<close> and \<^verbatim>\<open>if (p) p->next = v\<close>.\<close>

definition set_prev_if :: "ragdoll_bone list \<Rightarrow> bone_ptr option \<Rightarrow> bone_ptr option \<Rightarrow> ragdoll_bone list" where
  "set_prev_if h p v = (case p of None \<Rightarrow> h | Some a \<Rightarrow> set_prev h a v)"

definition set_next_if :: "ragdoll_bone list \<Rightarrow> bone_ptr option \<Rightarrow> bone_ptr option \<Rightarrow> ragdoll_bone list" where
  "set_next_if h p v = (case p of None \<Rightarrow> h | Some a \<Rightarrow> set_next h a v)"

text \<open>\<^verbatim>\<open>changeRagdollBoneJoint\<close>, lines 1611-1650. The old joint is released, the
  joint is created between the parent's actor and the child's; a type other than fixed,
  revolute or spherical is \<^verbatim>\<open>ASSERT(false)\<close>, and a child without a parent is a null
  dereference. The SDK's constructors are taken to succeed.\<close>

definition changeRagdollBoneJoint ::
  "sdk \<Rightarrow> ragdoll_bone list \<Rightarrow> bone_ptr \<Rightarrow> joint_type \<Rightarrow> fault + ragdoll_bone list" where
  "changeRagdollBoneJoint k h c type =
     (case parent (h ! c) of
        None \<Rightarrow> Inl NullDeref
      | Some p \<Rightarrow>
          let (tr0, tr1) = joint_frames k (global_pose (actor (h ! c))) (global_pose (actor (h ! p)));
              mk = (\<lambda>cl. \<lparr>joint_class = cl, actor0 = p, actor1 = c,
                           local_pose0 = tr0, local_pose1 = tr1\<rparr>)
          in (case type of
                eFIXED \<Rightarrow> Inr (set_parent_joint h c (Some (mk PxFixedJoint)))
              | eREVOLUTE \<Rightarrow> Inr (set_parent_joint h c (Some (mk (PxRevoluteJoint (default_limit k) 0))))
              | eSPHERICAL \<Rightarrow> Inr (set_parent_joint h c (Some (mk (PxSphericalJoint (default_limit k) 0))))
              | _ \<Rightarrow> Inl AssertFailed))"

text \<open>The \<^verbatim>\<open>while (child)\<close> loop of \<^verbatim>\<open>disconnect\<close>, lines 1662-1687. The loop follows
  \<^verbatim>\<open>next\<close> pointers and ends on a list that ends; the first argument bounds the number
  of rounds.\<close>

fun disconnect_children ::
  "nat \<Rightarrow> sdk \<Rightarrow> ragdoll \<Rightarrow> bone_ptr option \<Rightarrow> bone_ptr option \<Rightarrow> fault + ragdoll" where
  "disconnect_children n k s par None = Inr s"
| "disconnect_children 0 k s par (Some c) = Inl OutOfFuel"
| "disconnect_children (Suc n) k s par (Some c) =
     (let h = heap s;
          nxt = next (h ! c);
          h1 = set_parent_joint h c None
      in case par of
           Some p \<Rightarrow>
             (let h2 = set_next h1 c (child (h1 ! p));
                  h3 = set_prev h2 c None;
                  h4 = set_prev_if h3 (next (h3 ! c)) (Some c);
                  h5 = set_child h4 p (Some c);
                  h6 = set_parent h5 c (Some p)
              in case changeRagdollBoneJoint k h6 c eREVOLUTE of
                   Inl f \<Rightarrow> Inl f
                 | Inr h7 \<Rightarrow> disconnect_children n k (s\<lparr>heap := h7\<rparr>) par nxt)
         | None \<Rightarrow>
             (let h2 = set_parent h1 c None;
                  h3 = set_next h2 c (ragdoll_root s);
                  h4 = set_prev h3 c None;
                  h5 = set_prev_if h4 (next (h4 ! c)) (Some c)
              in disconnect_children n k \<lparr>heap = h5, ragdoll_root = Some c\<rparr> par nxt))"

text \<open>\<^verbatim>\<open>disconnect\<close>, lines 1653-1696.\<close>

definition disconnect :: "nat \<Rightarrow> sdk \<Rightarrow> ragdoll \<Rightarrow> bone_ptr \<Rightarrow> fault + ragdoll" where
  "disconnect n k s bone =
     (let h = heap s;
          chld = child (h ! bone);
          par = parent (h ! bone);
          h1 = (case par of
                  None \<Rightarrow> h
                | Some p \<Rightarrow> if child (h ! p) = Some bone then set_child h p (next (h ! bone)) else h);
          r1 = (if ragdoll_root s = Some bone then next (h1 ! bone) else ragdoll_root s);
          h2 = set_next_if h1 (prev (h1 ! bone)) (next (h1 ! bone));
          h3 = set_prev_if h2 (next (h2 ! bone)) (prev (h2 ! bone))
      in case disconnect_children n k \<lparr>heap = h3, ragdoll_root = r1\<rparr> par chld of
           Inl f \<Rightarrow> Inl f
         | Inr s4 \<Rightarrow>
             (let h4 = heap s4;
                  h5 = set_parent_joint h4 bone None;
                  h6 = set_parent h5 bone None;
                  h7 = set_child h6 bone None;
                  h8 = set_prev h7 bone None;
                  h9 = set_next h8 bone (ragdoll_root s4);
                  h10 = set_prev_if h9 (next (h9 ! bone)) (Some bone)
              in Inr (s4\<lparr>heap := h10\<rparr>)))"

text \<open>\<^verbatim>\<open>connect\<close>, lines 1699-1711.\<close>

definition connect :: "sdk \<Rightarrow> ragdoll \<Rightarrow> bone_ptr \<Rightarrow> bone_ptr \<Rightarrow> fault + ragdoll" where
  "connect k s c p =
     (let h = heap s in
      if parent (h ! c) \<noteq> None then Inl AssertFailed
      else if child (h ! c) \<noteq> None then Inl AssertFailed
      else
        let h1 = set_prev_if h (next (h ! c)) (prev (h ! c));
            h2 = set_next_if h1 (prev (h1 ! c)) (next (h1 ! c));
            r1 = (if ragdoll_root s = Some c then next (h2 ! c) else ragdoll_root s);
            h3 = set_next h2 c (child (h2 ! p));
            h4 = set_prev_if h3 (next (h3 ! c)) (Some c);
            h5 = set_child h4 p (Some c);
            h6 = set_parent h5 c (Some p)
        in case changeRagdollBoneJoint k h6 c eREVOLUTE of
             Inl f \<Rightarrow> Inl f
           | Inr h7 \<Rightarrow> Inr \<lparr>heap = h7, ragdoll_root = r1\<rparr>)"

subsection \<open>The source skeleton and the search for a bone's physical parent\<close>

text \<open>Modelled from the spec: the render model (\<^verbatim>\<open>renderer/model.h\<close>) is not part of the
  excerpt. The base skeleton is an array of bones, each with the hash of its name and the
  index of its parent (negative for none); \<^verbatim>\<open>getBoneIndex\<close> resolves a name hash to the
  index of the bone that carries it.\<close>

record model_bone =
  name_hash :: u32
  parent_idx :: int

fun getBoneIndex_from :: "model_bone list \<Rightarrow> u32 \<Rightarrow> nat \<Rightarrow> nat option" where
  "getBoneIndex_from [] h i = None"
| "getBoneIndex_from (b # bs) h i = (if name_hash b = h then Some i else getBoneIndex_from bs h (Suc i))"

definition getBoneIndex :: "model_bone list \<Rightarrow> u32 \<Rightarrow> nat option" where
  "getBoneIndex m h = getBoneIndex_from m h 0"

text \<open>\<^verbatim>\<open>getBone\<close>, lines 1471-1483: depth-first search, child before next. The recursion
  ends on a tree that is finite; the first argument bounds its depth.\<close>

fun getBone :: "nat \<Rightarrow> ragdoll_bone list \<Rightarrow> bone_ptr option \<Rightarrow> int \<Rightarrow> fault + bone_ptr option" where
  "getBone n h None idx = Inr None"
| "getBone 0 h (Some b) idx = Inl OutOfFuel"
| "getBone (Suc n) h (Some b) idx =
     (if pose_bone_idx (h ! b) = idx then Inr (Some b)
      else
        (case getBone n h (child (h ! b)) idx of
           Inl f \<Rightarrow> Inl f
         | Inr (Some x) \<Rightarrow> Inr (Some x)
         | Inr None \<Rightarrow> getBone n h (next (h ! b)) idx))"

text \<open>\<^verbatim>\<open>getRagdollBoneByName\<close>, lines 1571-1586.\<close>

definition getRagdollBoneByName ::
  "nat \<Rightarrow> model_bone list \<Rightarrow> ragdoll \<Rightarrow> u32 \<Rightarrow> fault + bone_ptr option" where
  "getRagdollBoneByName n m s bone_name_hash =
     (case getBoneIndex m bone_name_hash of
        None \<Rightarrow> Inl AssertFailed
      | Some i \<Rightarrow> getBone n (heap s) (ragdoll_root s) (int i))"

text \<open>The \<^verbatim>\<open>do ... while\<close> loop of \<^verbatim>\<open>getPhyParent\<close>, lines 1594-1598, entered with the
  parent index of the current skeleton bone.\<close>

fun getPhyParent_loop ::
  "nat \<Rightarrow> model_bone list \<Rightarrow> ragdoll \<Rightarrow> int \<Rightarrow> fault + bone_ptr option" where
  "getPhyParent_loop 0 m s pidx = Inl OutOfFuel"
| "getPhyParent_loop (Suc n) m s pidx =
     (if pidx < 0 \<or> pidx \<ge> int (length m) then Inl OutOfBounds
      else
        let bone = m ! nat pidx in
        (case getRagdollBoneByName n m s (name_hash bone) of
           Inl f \<Rightarrow> Inl f
         | Inr phy_bone \<Rightarrow>
             if phy_bone = None \<and> parent_idx bone \<ge> 0 then getPhyParent_loop n m s (parent_idx bone)
             else Inr phy_bone))"

text \<open>\<^verbatim>\<open>getPhyParent\<close>, lines 1589-1600.\<close>

definition getPhyParent ::
  "nat \<Rightarrow> model_bone list \<Rightarrow> ragdoll \<Rightarrow> int \<Rightarrow> fault + bone_ptr option" where
  "getPhyParent n m s bone_index =
     (if bone_index < 0 \<or> bone_index \<ge> int (length m) then Inl OutOfBounds
      else
        let bone = m ! nat bone_index in
        if parent_idx bone < 0 then Inr None
        else getPhyParent_loop n m s (parent_idx bone))"

text \<open>\<^verbatim>\<open>findCloserChildren\<close>, lines 1714-1739: the loop over the root list (left by
  \<^verbatim>\<open>break\<close> after the first bone it moves), and the loop over the siblings of the new
  bone, which asks for the physical parent of \<^verbatim>\<open>bone->pose_bone_idx\<close> (line 1733).\<close>

fun closer_roots ::
  "nat \<Rightarrow> sdk \<Rightarrow> model_bone list \<Rightarrow> ragdoll \<Rightarrow> bone_ptr \<Rightarrow> bone_ptr option \<Rightarrow> fault + ragdoll" where
  "closer_roots n k m s bone None = Inr s"
| "closer_roots 0 k m s bone (Some r) = Inl OutOfFuel"
| "closer_roots (Suc n) k m s bone (Some r) =
     (if r = bone then closer_roots n k m s bone (next (heap s ! r))
      else
        (case getPhyParent n m s (pose_bone_idx (heap s ! r)) of
           Inl f \<Rightarrow> Inl f
         | Inr tmp \<Rightarrow>
             if tmp \<noteq> Some bone then closer_roots n k m s bone (next (heap s ! r))
             else
               (case disconnect n k s r of
                  Inl f \<Rightarrow> Inl f
                | Inr s1 \<Rightarrow> connect k s1 r bone)))"

fun closer_siblings ::
  "nat \<Rightarrow> sdk \<Rightarrow> model_bone list \<Rightarrow> ragdoll \<Rightarrow> bone_ptr \<Rightarrow> bone_ptr option \<Rightarrow> fault + ragdoll" where
  "closer_siblings n k m s bone None = Inr s"
| "closer_siblings 0 k m s bone (Some c) = Inl OutOfFuel"
| "closer_siblings (Suc n) k m s bone (Some c) =
     (if c = bone then closer_siblings n k m s bone (next (heap s ! c))
      else
        (case getPhyParent n m s (pose_bone_idx (heap s ! bone)) of
           Inl f \<Rightarrow> Inl f
         | Inr tmp \<Rightarrow>
             if tmp \<noteq> Some bone then closer_siblings n k m s bone (next (heap s ! c))
             else
               (case disconnect n k s c of
                  Inl f \<Rightarrow> Inl f
                | Inr s1 \<Rightarrow>
                    (case connect k s1 c bone of
                       Inl f \<Rightarrow> Inl f
                     | Inr s2 \<Rightarrow> closer_siblings n k m s2 bone (next (heap s2 ! c))))))"

definition findCloserChildren ::
  "nat \<Rightarrow> sdk \<Rightarrow> model_bone list \<Rightarrow> ragdoll \<Rightarrow> bone_ptr \<Rightarrow> fault + ragdoll" where
  "findCloserChildren n k m s bone =
     (case closer_roots n k m s bone (ragdoll_root s) of
        Inl f \<Rightarrow> Inl f
      | Inr s1 \<Rightarrow>
          (case parent (heap s1 ! bone) of
             None \<Rightarrow> Inr s1
           | Some p \<Rightarrow> closer_siblings n k m s1 bone (child (heap s1 ! p))))"

text \<open>\<^verbatim>\<open>createRagdollBone\<close>, lines 1761-1806. The result is the new bone and the
  ragdoll.\<close>

definition createRagdollBone ::
  "nat \<Rightarrow> sdk \<Rightarrow> model_bone list \<Rightarrow> ragdoll \<Rightarrow> u32 \<Rightarrow> fault + (bone_ptr \<times> ragdoll)" where
  "createRagdollBone n k m s bone_name_hash =
     (case getBoneIndex m bone_name_hash of
        None \<Rightarrow> Inl AssertFailed
      | Some i \<Rightarrow>
          let new_bone = length (heap s);
              h1 = heap s @ [\<lparr>pose_bone_idx = int i, actor = new_actor k (int i),
                               parent_joint = None, child = None, next = None, prev = None,
                               parent = None, bind_transform = new_bind_transform k (int i)\<rparr>];
              h2 = set_next h1 new_bone (ragdoll_root s);
              h3 = set_prev_if h2 (next (h2 ! new_bone)) (Some new_bone);
              s3 = \<lparr>heap = h3, ragdoll_root = Some new_bone\<rparr>
          in (case getPhyParent n m s3 (int i) of
                Inl f \<Rightarrow> Inl f
              | Inr par \<Rightarrow>
                  (case (case par of None \<Rightarrow> Inr s3 | Some p \<Rightarrow> connect k s3 new_bone p) of
                     Inl f \<Rightarrow> Inl f
                   | Inr s4 \<Rightarrow>
                       (case findCloserChildren n k m s4 new_bone of
                          Inl f \<Rightarrow> Inl f
                        | Inr s5 \<Rightarrow> Inr (new_bone, s5)))))"

subsection \<open>Serialization of the bone tree\<close>

text \<open>The blob is the sequence of the values written to it, each of the type it was
  written with; reading takes the next value. A stream that ends early, or that holds a
  value of another type where one is read, is the fault \<open>ReadPastEnd\<close>.
  \<^verbatim>\<open>PxJointConcreteType\<close> values are written as \<^verbatim>\<open>int\<close>; the numbering is the SDK's
  (\<^verbatim>\<open>eSPHERICAL\<close> is the first extension type, 256).\<close>

datatype item = Int32 int | Boolean bool | UInt32 u32 | Float32 u32 | Struct floats

fun joint_type_code :: "joint_type \<Rightarrow> int" where
  "joint_type_code eSPHERICAL = 256"
| "joint_type_code eREVOLUTE = 257"
| "joint_type_code ePRISMATIC = 258"
| "joint_type_code eFIXED = 259"
| "joint_type_code eDISTANCE = 260"
| "joint_type_code eD6 = 261"
| "joint_type_code eCONTACT = 262"

definition joint_type_of_code :: "int \<Rightarrow> joint_type option" where
  "joint_type_of_code i =
     (if i = 256 then Some eSPHERICAL else if i = 257 then Some eREVOLUTE
      else if i = 258 then Some ePRISMATIC else if i = 259 then Some eFIXED
      else if i = 260 then Some eDISTANCE else if i = 261 then Some eD6
      else if i = 262 then Some eCONTACT else None)"

text \<open>\<^verbatim>\<open>serializeRagdollJoint\<close>, lines 2519-2553. The \<^verbatim>\<open>switch\<close> has the cases fixed,
  distance and revolute; any other type is \<^verbatim>\<open>ASSERT(false)\<close>.\<close>

definition serializeRagdollJoint :: "ragdoll_bone list \<Rightarrow> bone_ptr \<Rightarrow> fault + item list" where
  "serializeRagdollJoint h bone =
     (case parent_joint (h ! bone) of
        None \<Rightarrow> Inr [Boolean False]
      | Some j \<Rightarrow>
          let hdr = [Boolean True, Int32 (joint_type_code (getConcreteType j)),
                     Struct (local_pose0 j), Struct (local_pose1 j)]
          in (case joint_class j of
                PxFixedJoint \<Rightarrow> Inr hdr
              | PxDistanceJoint mn mx tol stiff damp fl \<Rightarrow>
                  Inr (hdr @ [Float32 mn, Float32 mx, Float32 tol, Float32 stiff, Float32 damp, UInt32 fl])
              | PxRevoluteJoint lim fl \<Rightarrow> Inr (hdr @ [Struct lim, UInt32 fl])
              | PxSphericalJoint lim fl \<Rightarrow> Inl AssertFailed))"

text \<open>\<^verbatim>\<open>RagdollBone::Type\<close>: \<^verbatim>\<open>BOX\<close> is 0 and \<^verbatim>\<open>CAPSULE\<close> is 1.\<close>

definition serialize_shape :: "px_geometry \<Rightarrow> item list" where
  "serialize_shape g =
     (case g of
        PxBoxGeometry half_extents \<Rightarrow> [Int32 0, Struct half_extents]
      | PxCapsuleGeometry half_height radius \<Rightarrow> [Int32 1, Float32 half_height, Float32 radius])"

text \<open>\<^verbatim>\<open>serializeRagdollBone\<close>, lines 2556-2591. The recursion ends on a finite tree; the
  first argument bounds its depth.\<close>

fun serializeRagdollBone :: "nat \<Rightarrow> ragdoll_bone list \<Rightarrow> bone_ptr option \<Rightarrow> fault + item list" where
  "serializeRagdollBone n h None = Inr [Int32 (- 1)]"
| "serializeRagdollBone 0 h (Some b) = Inl OutOfFuel"
| "serializeRagdollBone (Suc n) h (Some b) =
     (let bone = h ! b;
          own = [Int32 (pose_bone_idx bone), Struct (global_pose (actor bone)),
                 Struct (bind_transform bone)] @ serialize_shape (shape (actor bone))
      in case serializeRagdollBone n h (child bone) of
           Inl f \<Rightarrow> Inl f
         | Inr cs \<Rightarrow>
             (case serializeRagdollBone n h (next bone) of
                Inl f \<Rightarrow> Inl f
              | Inr ns \<Rightarrow>
                  (case serializeRagdollJoint h b of
                     Inl f \<Rightarrow> Inl f
                   | Inr js \<Rightarrow> Inr (own @ cs @ ns @ js))))"

text \<open>\<^verbatim>\<open>deserializeRagdollJoint\<close>, lines 2594-2644. The joint is made by
  \<^verbatim>\<open>changeRagdollBoneJoint\<close>, then its local poses and the parameters of its class are
  set from the stream.\<close>

definition set_local_poses :: "ragdoll_bone list \<Rightarrow> bone_ptr \<Rightarrow> floats \<Rightarrow> floats \<Rightarrow> fault + ragdoll_bone list" where
  "set_local_poses h bone p0 p1 =
     (case parent_joint (h ! bone) of
        None \<Rightarrow> Inl NullDeref
      | Some j \<Rightarrow> Inr (set_parent_joint h bone (Some (j\<lparr>local_pose0 := p0, local_pose1 := p1\<rparr>))))"

definition set_joint_class :: "ragdoll_bone list \<Rightarrow> bone_ptr \<Rightarrow> joint_class \<Rightarrow> fault + ragdoll_bone list" where
  "set_joint_class h bone cl =
     (case parent_joint (h ! bone) of
        None \<Rightarrow> Inl NullDeref
      | Some j \<Rightarrow>
          if getConcreteType j = getConcreteType (j\<lparr>joint_class := cl\<rparr>)
          then Inr (set_parent_joint h bone (Some (j\<lparr>joint_class := cl\<rparr>)))
          else Inl NullDeref)"

definition deserializeRagdollJoint ::
  "sdk \<Rightarrow> ragdoll_bone list \<Rightarrow> bone_ptr \<Rightarrow> item list \<Rightarrow> fault + (ragdoll_bone list \<times> item list)" where
  "deserializeRagdollJoint k h bone blob =
     (case blob of
        Boolean has_joint # blob1 \<Rightarrow>
          if \<not> has_joint then Inr (h, blob1)
          else
            (case blob1 of
               Int32 type # Struct p0 # Struct p1 # blob2 \<Rightarrow>
                 (case joint_type_of_code type of
                    None \<Rightarrow> Inl AssertFailed
                  | Some t \<Rightarrow>
                      (case changeRagdollBoneJoint k h bone t of
                         Inl f \<Rightarrow> Inl f
                       | Inr h1 \<Rightarrow>
                           (case set_local_poses h1 bone p0 p1 of
                              Inl f \<Rightarrow> Inl f
                            | Inr h2 \<Rightarrow>
                                (case t of
                                   eFIXED \<Rightarrow> Inr (h2, blob2)
                                 | eDISTANCE \<Rightarrow>
                                     (case blob2 of
                                        Float32 mn # Float32 mx # Float32 tol # Float32 stiff # Float32 damp
                                          # UInt32 fl # blob3 \<Rightarrow>
                                          (case set_joint_class h2 bone (PxDistanceJoint mn mx tol stiff damp fl) of
                                             Inl f \<Rightarrow> Inl f
                                           | Inr h3 \<Rightarrow> Inr (h3, blob3))
                                      | _ \<Rightarrow> Inl ReadPastEnd)
                                 | eREVOLUTE \<Rightarrow>
                                     (case blob2 of
                                        Struct lim # UInt32 fl # blob3 \<Rightarrow>
                                          (case set_joint_class h2 bone (PxRevoluteJoint lim fl) of
                                             Inl f \<Rightarrow> Inl f
                                           | Inr h3 \<Rightarrow> Inr (h3, blob3))
                                      | _ \<Rightarrow> Inl ReadPastEnd)
                                 | _ \<Rightarrow> Inl AssertFailed))))
             | _ \<Rightarrow> Inl ReadPastEnd)
      | _ \<Rightarrow> Inl ReadPastEnd)"

definition deserialize_shape :: "item list \<Rightarrow> fault + (px_geometry \<times> item list)" where
  "deserialize_shape blob =
     (case blob of
        Int32 type # blob1 \<Rightarrow>
          if type = 1 then
            (case blob1 of
               Float32 half_height # Float32 radius # blob2 \<Rightarrow> Inr (PxCapsuleGeometry half_height radius, blob2)
             | _ \<Rightarrow> Inl ReadPastEnd)
          else if type = 0 then
            (case blob1 of
               Struct half_extents # blob2 \<Rightarrow> Inr (PxBoxGeometry half_extents, blob2)
             | _ \<Rightarrow> Inl ReadPastEnd)
          else Inl AssertFailed
      | _ \<Rightarrow> Inl ReadPastEnd)"

text \<open>\<^verbatim>\<open>deserializeRagdollBone\<close>, lines 2647-2699. The result is the bone read (null for
  a negative index), the arena and the rest of the stream. Every call reads from the
  stream; the first argument bounds the depth of the recursion.\<close>

fun deserializeRagdollBone ::
  "nat \<Rightarrow> sdk \<Rightarrow> ragdoll_bone list \<Rightarrow> bone_ptr option \<Rightarrow> item list
     \<Rightarrow> fault + (bone_ptr option \<times> ragdoll_bone list \<times> item list)" where
  "deserializeRagdollBone 0 k h par blob = Inl OutOfFuel"
| "deserializeRagdollBone (Suc n) k h par blob =
     (case blob of
        Int32 idx # blob1 \<Rightarrow>
          if idx < 0 then Inr (None, h, blob1)
          else
            (case blob1 of
               Struct transform # Struct bind # blob2 \<Rightarrow>
                 (case deserialize_shape blob2 of
                    Inl f \<Rightarrow> Inl f
                  | Inr (geom, blob3) \<Rightarrow>
                      let bone = length h;
                          h1 = h @ [\<lparr>pose_bone_idx = idx,
                                     actor = \<lparr>global_pose = transform, shape = geom\<rparr>,
                                     parent_joint = None, child = None, next = None, prev = None,
                                     parent = par, bind_transform = bind\<rparr>]
                      in (case deserializeRagdollBone n k h1 (Some bone) blob3 of
                            Inl f \<Rightarrow> Inl f
                          | Inr (c, h2, blob4) \<Rightarrow>
                              let h3 = set_child h2 bone c in
                              (case deserializeRagdollBone n k h3 par blob4 of
                                 Inl f \<Rightarrow> Inl f
                               | Inr (nx, h4, blob5) \<Rightarrow>
                                   let h5 = set_next h4 bone nx;
                                       h6 = set_prev_if h5 (next (h5 ! bone)) (Some bone)
                                   in (case deserializeRagdollJoint k h6 bone blob5 of
                                         Inl f \<Rightarrow> Inl f
                                       | Inr (h7, blob6) \<Rightarrow> Inr (Some bone, h7, blob6)))))
             | _ \<Rightarrow> Inl ReadPastEnd)
      | _ \<Rightarrow> Inl ReadPastEnd)"

section \<open>Consistency of the bone tree\<close>

text \<open>The bones reached from a pointer by \<^verbatim>\<open>next\<close>, at most \<open>n\<close> of them.\<close>

fun next_chain :: "nat \<Rightarrow> ragdoll_bone list \<Rightarrow> bone_ptr option \<Rightarrow> bone_ptr list" where
  "next_chain n h None = []"
| "next_chain 0 h (Some b) = []"
| "next_chain (Suc n) h (Some b) = b # next_chain n h (next (h ! b))"

definition root_chain :: "ragdoll \<Rightarrow> bone_ptr list" where
  "root_chain s = next_chain (Suc (length (heap s))) (heap s) (ragdoll_root s)"

text \<open>\<^verbatim>\<open>prev->next == this\<close> and \<^verbatim>\<open>next->prev == this\<close> whenever non-null.\<close>

definition back_links_ok :: "ragdoll_bone list \<Rightarrow> bone_ptr \<Rightarrow> bool" where
  "back_links_ok h a =
     ((case prev (h ! a) of None \<Rightarrow> True | Some q \<Rightarrow> next (h ! q) = Some a) \<and>
      (case next (h ! a) of None \<Rightarrow> True | Some q \<Rightarrow> prev (h ! q) = Some a))"

text \<open>A pointer is null or the address of a bone of the arena.\<close>

definition ptr_ok :: "ragdoll_bone list \<Rightarrow> bone_ptr option \<Rightarrow> bool" where
  "ptr_ok h p = (case p of None \<Rightarrow> True | Some a \<Rightarrow> a < length h)"

definition bone_ptrs_ok :: "ragdoll_bone list \<Rightarrow> bone_ptr \<Rightarrow> bool" where
  "bone_ptrs_ok h a =
     (ptr_ok h (child (h ! a)) \<and> ptr_ok h (next (h ! a)) \<and> ptr_ok h (prev (h ! a))
      \<and> ptr_ok h (parent (h ! a)))"

text \<open>The sibling links are consistent when every pointer is null or live, every bone
  has consistent back-links and the root chain does not repeat a bone.\<close>

definition links_consistent :: "ragdoll \<Rightarrow> bool" where
  "links_consistent s =
     (ptr_ok (heap s) (ragdoll_root s) \<and>
      list_all (bone_ptrs_ok (heap s)) [0..<length (heap s)] \<and>
      list_all (back_links_ok (heap s)) [0..<length (heap s)] \<and>
      distinct (root_chain s))"

text \<open>A bone is on the chain that starts at a pointer when following \<^verbatim>\<open>next\<close> from the
  pointer reaches it.\<close>

inductive on_chain :: "ragdoll_bone list \<Rightarrow> bone_ptr option \<Rightarrow> bone_ptr \<Rightarrow> bool" where
  first: "on_chain h (Some b) b"
| later: "on_chain h (next (h ! a)) b \<Longrightarrow> on_chain h (Some a) b"

code_pred on_chain .

text \<open>The tree is consistent when the sibling links are, no list of children repeats a
  bone, and every bone without a parent is on the chain that starts at
  \<^verbatim>\<open>ragdoll.root\<close>.\<close>

definition tree_consistent :: "ragdoll \<Rightarrow> bool" where
  "tree_consistent s =
     (links_consistent s \<and>
      list_all (\<lambda>a. distinct (next_chain (Suc (length (heap s))) (heap s) (child (heap s ! a))))
               [0..<length (heap s)] \<and>
      (\<forall>a < length (heap s). parent (heap s ! a) = None \<longrightarrow> on_chain (heap s) (ragdoll_root s) a))"

text \<open>The bones of the tree under a pointer: the bone itself, and the bones under its
  \<^verbatim>\<open>child\<close> and its \<^verbatim>\<open>next\<close>, which are the ones \<^verbatim>\<open>serializeRagdollBone\<close> visits.\<close>

inductive reach :: "ragdoll_bone list \<Rightarrow> bone_ptr option \<Rightarrow> bone_ptr \<Rightarrow> bool" where
  here: "reach h (Some b) b"
| down: "reach h (child (h ! a)) b \<Longrightarrow> reach h (Some a) b"
| along: "reach h (next (h ! a)) b \<Longrightarrow> reach h (Some a) b"

code_pred reach .

text \<open>A skeleton in which every bone comes after its parent.\<close>

definition ancestors_precede :: "model_bone list \<Rightarrow> bool" where
  "ancestors_precede m = list_all (\<lambda>i. parent_idx (m ! i) < int i) [0..<length m]"

text \<open>The pointers of a ragdoll, bone by bone: index in the skeleton, parent, child, next,
  prev, and whether the bone has a joint; then the root pointer.\<close>

definition links ::
  "ragdoll \<Rightarrow> (int \<times> bone_ptr option \<times> bone_ptr option \<times> bone_ptr option \<times> bone_ptr option \<times> bool) list
               \<times> bone_ptr option" where
  "links s = (map (\<lambda>b. (pose_bone_idx b, parent b, child b, next b, prev b, parent_joint b \<noteq> None)) (heap s),
              ragdoll_root s)"

text \<open>A sequence of \<^verbatim>\<open>createRagdollBone\<close> calls, by bone name hash.\<close>

fun create_bones :: "nat \<Rightarrow> sdk \<Rightarrow> model_bone list \<Rightarrow> ragdoll \<Rightarrow> u32 list \<Rightarrow> fault + ragdoll" where
  "create_bones n k m s [] = Inr s"
| "create_bones n k m s (h # hs) =
     (case createRagdollBone n k m s h of
        Inl f \<Rightarrow> Inl f
      | Inr (b, s1) \<Rightarrow> create_bones n k m s1 hs)"

section \<open>Example scenes\<close>

definition example_sdk :: sdk where
  "example_sdk =
     \<lparr>joint_frames = (\<lambda>a b. (a, b)), default_limit = [0, 0],
      new_actor = (\<lambda>i. \<lparr>global_pose = [word_of_int i], shape = PxCapsuleGeometry 1 2\<rparr>),
      new_bind_transform = (\<lambda>i. [word_of_int i])\<rparr>"

text \<open>A skeleton that is a chain (bone 0 over bone 1 over bone 2) and one that is a fork
  (bone 0 over bones 1 and 2), with name hashes 10, 11 and 12.\<close>

definition chain_skeleton :: "model_bone list" where
  "chain_skeleton =
     [\<lparr>name_hash = 10, parent_idx = - 1\<rparr>, \<lparr>name_hash = 11, parent_idx = 0\<rparr>,
      \<lparr>name_hash = 12, parent_idx = 1\<rparr>]"

definition fork_skeleton :: "model_bone list" where
  "fork_skeleton =
     [\<lparr>name_hash = 10, parent_idx = - 1\<rparr>, \<lparr>name_hash = 11, parent_idx = 0\<rparr>,
      \<lparr>name_hash = 12, parent_idx = 0\<rparr>]"

definition empty_ragdoll :: ragdoll where
  "empty_ragdoll = \<lparr>heap = [], ragdoll_root = None\<rparr>"

text \<open>The ragdoll of a result, the empty ragdoll for a fault; the ragdoll that
  \<^verbatim>\<open>createRagdollBone\<close> makes of the chain skeleton, bone 0 first, and the one
  \<^verbatim>\<open>disconnect\<close> of its middle bone makes of that.\<close>

definition the_ragdoll :: "fault + ragdoll \<Rightarrow> ragdoll" where
  "the_ragdoll r = (case r of Inl f \<Rightarrow> empty_ragdoll | Inr s \<Rightarrow> s)"

definition chain_ragdoll :: ragdoll where
  "chain_ragdoll = the_ragdoll (create_bones 8 example_sdk chain_skeleton empty_ragdoll [10, 11, 12])"

definition chain_ragdoll_without_1 :: ragdoll where
  "chain_ragdoll_without_1 = the_ragdoll (disconnect 8 example_sdk chain_ragdoll 1)"

text \<open>The ragdoll that \<^verbatim>\<open>createRagdollBone\<close> makes of the chain skeleton in the order
  0, 2, 1.\<close>

definition late_middle_ragdoll :: ragdoll where
  "late_middle_ragdoll =
     the_ragdoll (create_bones 8 example_sdk chain_skeleton empty_ragdoll [10, 12, 11])"

text \<open>The ragdoll that \<^verbatim>\<open>createRagdollBone\<close> makes of the first two bones of the
  chain skeleton, and its arena after \<^verbatim>\<open>changeRagdollBoneJoint\<close> made the joint of the
  second bone spherical.\<close>

definition two_bone_ragdoll :: ragdoll where
  "two_bone_ragdoll = the_ragdoll (create_bones 8 example_sdk chain_skeleton empty_ragdoll [10, 11])"

definition spherical_heap :: "ragdoll_bone list" where
  "spherical_heap =
     (case changeRagdollBoneJoint example_sdk (heap two_bone_ragdoll) 1 eSPHERICAL of
        Inl f \<Rightarrow> [] | Inr h \<Rightarrow> h)"

text \<open>The ragdoll that \<^verbatim>\<open>createRagdollBone\<close> makes of the root bone of the chain
  skeleton.\<close>

definition one_bone_ragdoll :: ragdoll where
  "one_bone_ragdoll =
     \<lparr>heap = [\<lparr>pose_bone_idx = 0, actor = new_actor example_sdk 0, parent_joint = None,
               child = None, next = None, prev = None, parent = None,
               bind_transform = new_bind_transform example_sdk 0\<rparr>],
      ragdoll_root = Some 0\<rparr>"

text \<open>A controller resource with a float slot and a bool slot, one whose input
  declaration is empty, and one that failed to load; an environment that holds them at
  addresses 0, 1 and 2, in which every update returns a new node.\<close>

definition example_resource :: controller_resource where
  "example_resource =
     \<lparr>m_current_state = State_READY,
      m_input_decl = \<lparr>inputs = [\<lparr>slot_type = Input_FLOAT, offset = 0, slot_name = ''speed''\<rparr>,
                                 \<lparr>slot_type = Input_BOOL, offset = 4, slot_name = ''jump''\<rparr>],
                       decl_size = 5\<rparr>,
      m_sets_names = [''default''],
      m_animation_set = [\<lparr>entry_set = 0, entry_hash = 1, entry_animation = 0\<rparr>]\<rparr>"

definition example_env :: env where
  "example_env =
     \<lparr>resources = (\<lambda>r. if r = 0 then example_resource
                         else if r = 1 then example_resource\<lparr>m_input_decl := \<lparr>inputs = [], decl_size = 0\<rparr>\<rparr>
                         else example_resource\<lparr>m_current_state := State_FAILURE\<rparr>),
      createInstance = (\<lambda>r. 100),
      node_update = (\<lambda>n dt inp. Suc n),
      getModelInstanceComponent = (\<lambda>e. Some e),
      lockPose = (\<lambda>mi. True),
      crc32 = (\<lambda>s. of_nat (length s))\<rparr>"

definition example_controller :: controller where
  "example_controller =
     \<lparr>ctrl_entity = 7, resource = Some 0, root = Some 100, default_set = 0,
      input = [1, 2, 3, 4, 5], animations = [(1, 0)],
      inverse_kinematics = [\<lparr>weight = 0, max_iterations = 5, bones_count = 4\<rparr>]\<rparr>"

definition example_layout :: event_layout where
  "example_layout =
     \<lparr>sizeof_SetInputEvent = 8,
      ev_input_idx = (\<lambda>bs. sint (u32_of_bytes (take 4 bs))),
      ev_b_value = (\<lambda>bs. bs ! 4),
      ev_i_value = (\<lambda>bs. u32_of_bytes (take 4 (drop 4 bs))),
      ev_f_value = (\<lambda>bs. u32_of_bytes (take 4 (drop 4 bs)))\<rparr>"

section \<open>Properties of the controller runtime\<close>

text \<open>The IK calls of a tick are never an update or a pose fill.\<close>

lemma ik_calls_only_ik:
  "FillPose m mi \<notin> set (ik_calls ks i) \<and> Update m \<notin> set (ik_calls ks i)"
  by (induction ks arbitrary: i) auto

text \<open>
  C1. For a controller with a ready resource and a non-null root, \<^verbatim>\<open>updateController\<close>
  first calls \<^verbatim>\<open>update\<close> on the stored root, stores the node that call returns as the new
  root, and every \<^verbatim>\<open>fillPose\<close> of the tick is made on that returned node; when the entity
  has a model instance whose pose can be locked, that \<^verbatim>\<open>fillPose\<close> is made.
\<close>

theorem update_then_fillPose_on_returned_node:
  assumes "resource c = Some r" and "isReady (resources e r)" and "root c = Some n"
  shows "\<exists>c' rest. updateController e c dt = Inr (c', Update n # rest)
           \<and> root c' = Some (node_update e n dt (input c))
           \<and> (\<forall>m mi. FillPose m mi \<in> set rest \<longrightarrow> m = node_update e n dt (input c))
           \<and> (\<forall>m. Update m \<notin> set rest)
           \<and> (\<forall>mi. getModelInstanceComponent e (ctrl_entity c) = Some mi \<and> lockPose e mi
                  \<longrightarrow> FillPose (node_update e n dt (input c)) mi \<in> set rest)"
  using assms ik_calls_only_ik
  by (auto simp: updateController_def update_and_pose_def Let_def split: option.splits)

theorem update_then_fillPose_witness:
  "resource example_controller = Some 0 \<and> isReady (resources example_env 0)
   \<and> root example_controller = Some 100
   \<and> updateController example_env example_controller 0 =
       Inr (example_controller\<lparr>root := Some 101\<rparr>,
            [Update 100, GetRelativePose 7, FillPose 101 7, ComputeAbsolute 7, UnlockPose 7])"
  using update_then_fillPose_on_returned_node [of example_controller 0 example_env 100 0]
  by (simp add: example_controller_def example_env_def example_resource_def isReady_def
      updateController_def update_and_pose_def float_is_zero_def)

text \<open>
  C10. A controller whose resource is ready but whose input declaration has size zero is
  never initialized: \<^verbatim>\<open>initControllerRuntime\<close> returns false and creates no node, and
  \<^verbatim>\<open>updateController\<close> leaves the controller as it is and calls nothing (no
  \<^verbatim>\<open>enter\<close>, no \<^verbatim>\<open>update\<close>, no \<^verbatim>\<open>fillPose\<close>), on every tick of any sequence of ticks.
\<close>

theorem zero_size_controller_never_initialized:
  assumes "resource c = Some r" and "isReady (resources e r)"
    and "decl_size (m_input_decl (resources e r)) = 0" and "root c = None"
  shows "initControllerRuntime e c = Inr (False, c, [])
       \<and> updateController e c dt = Inr (c, [])
       \<and> ticks e dts c = Inr (c, [])"
proof -
  have i: "initControllerRuntime e c = Inr (False, c, [])"
    using assms by (simp add: initControllerRuntime_def)
  have u: "updateController e c x = Inr (c, [])" for x
    using assms i by (simp add: updateController_def)
  have t: "ticks e dts c = Inr (c, [])"
    by (induction dts) (simp_all add: u)
  from i u t show ?thesis by simp
qed

theorem zero_size_controller_witness:
  "resource (example_controller\<lparr>resource := Some 1, root := None\<rparr>) = Some 1
   \<and> isReady (resources example_env 1)
   \<and> decl_size (m_input_decl (resources example_env 1)) = 0
   \<and> ticks example_env [0, 1, 2] (example_controller\<lparr>resource := Some 1, root := None\<rparr>) =
       Inr (example_controller\<lparr>resource := Some 1, root := None\<rparr>, [])"
proof -
  let ?c = "example_controller\<lparr>resource := Some 1, root := None\<rparr>"
  have h: "resource ?c = Some 1" "isReady (resources example_env 1)"
    "decl_size (m_input_decl (resources example_env 1)) = 0" "root ?c = None"
    by (simp_all add: example_controller_def example_env_def example_resource_def isReady_def)
  from zero_size_controller_never_initialized [OF h, of 0 "[0, 1, 2]"] h show ?thesis
    by blast
qed

text \<open>
  C6, as the code has it. The specification says that the input buffer is cleared whenever the
  resource is observed not ready. \<^verbatim>\<open>updateController\<close> only deletes and nulls the root,
  and the callback does nothing for a controller that has no root; the buffer keeps its
  bytes in both.
\<close>

theorem not_ready_keeps_input_counterexample:
  "updateController example_env (example_controller\<lparr>resource := Some 2\<rparr>) 0 =
     Inr (example_controller\<lparr>resource := Some 2, root := None\<rparr>, [Delete (Some 100)])
   \<and> input (example_controller\<lparr>resource := Some 2, root := None\<rparr>) = [1, 2, 3, 4, 5]
   \<and> resource_changed_controller State_FAILURE 2 (example_controller\<lparr>resource := Some 2, root := None\<rparr>) =
       (example_controller\<lparr>resource := Some 2, root := None\<rparr>, [])"
  by (simp add: example_controller_def example_env_def example_resource_def isReady_def
      updateController_def resource_changed_controller_def)

lemma onControllerResourceChanged_map:
  "fst (onControllerResourceChanged st r cs) =
     map (\<lambda>(k, c). (k, fst (resource_changed_controller st r c))) cs"
  by (induction cs) (auto simp: Let_def split: prod.splits)

text \<open>
  C6, amended. When \<^verbatim>\<open>updateController\<close> finds the resource not ready it deletes the
  root and sets it to null, and leaves the input buffer, the animation map and the
  default set as they are. When the callback reports a state other than ready for the
  resource of a controller that has a root, the root is deleted and set to null and the
  default set, the animation map and the input buffer are cleared; a controller with no
  root is left as it is. With the root null, the next \<^verbatim>\<open>updateController\<close> on a ready
  resource of non-zero input size creates a new root, enters it before updating it, and
  leaves an input buffer of the declared size filled with zeros.
\<close>

theorem not_ready_teardown:
  assumes "resource c = Some r"
  shows "(\<not> isReady (resources e r) \<longrightarrow>
            updateController e c dt = Inr (c\<lparr>root := None\<rparr>, [Delete (root c)]))
       \<and> (st \<noteq> State_READY \<and> root c \<noteq> None \<longrightarrow>
            resource_changed_controller st r c =
              (c\<lparr>root := None, default_set := 0, animations := [], input := []\<rparr>, [Delete (root c)]))
       \<and> (root c = None \<longrightarrow> resource_changed_controller st r c = (c, []))
       \<and> fst (onControllerResourceChanged st r cs) =
            map (\<lambda>(k, c). (k, fst (resource_changed_controller st r c))) cs
       \<and> (root c = None \<and> isReady (resources e r) \<and> 0 < decl_size (m_input_decl (resources e r)) \<longrightarrow>
            (\<exists>c' rest. updateController e c dt =
                 Inr (c', CreateInstance r (createInstance e r) # Enter (createInstance e r)
                          # Update (createInstance e r) # rest)
               \<and> input c' = replicate (decl_size (m_input_decl (resources e r))) 0
               \<and> root c' = Some (node_update e (createInstance e r) dt (input c'))))"
proof -
  have a: "\<not> isReady (resources e r) \<longrightarrow>
            updateController e c dt = Inr (c\<lparr>root := None\<rparr>, [Delete (root c)])"
    using assms by (simp add: updateController_def)
  have b: "st \<noteq> State_READY \<and> root c \<noteq> None \<longrightarrow>
            resource_changed_controller st r c =
              (c\<lparr>root := None, default_set := 0, animations := [], input := []\<rparr>, [Delete (root c)])"
    using assms by (simp add: resource_changed_controller_def)
  have d: "root c = None \<longrightarrow> resource_changed_controller st r c = (c, [])"
    by (simp add: resource_changed_controller_def)
  have f: "root c = None \<and> isReady (resources e r) \<and> 0 < decl_size (m_input_decl (resources e r)) \<longrightarrow>
            (\<exists>c' rest. updateController e c dt =
                 Inr (c', CreateInstance r (createInstance e r) # Enter (createInstance e r)
                          # Update (createInstance e r) # rest)
               \<and> input c' = replicate (decl_size (m_input_decl (resources e r))) 0
               \<and> root c' = Some (node_update e (createInstance e r) dt (input c')))"
    using assms
    by (auto simp: updateController_def initControllerRuntime_def update_and_pose_def Let_def
        resize_def setMemory_zero_def split: option.splits)
  from a b d f onControllerResourceChanged_map show ?thesis by blast
qed

theorem not_ready_teardown_witness:
  "resource example_controller = Some 0
   \<and> resource_changed_controller State_FAILURE 0 example_controller =
       (example_controller\<lparr>root := None, default_set := 0, animations := [], input := []\<rparr>,
        [Delete (Some 100)])
   \<and> (\<exists>c' rest. updateController example_env
          (example_controller\<lparr>root := None, default_set := 0, animations := [], input := []\<rparr>) 0 =
            Inr (c', CreateInstance 0 100 # Enter 100 # Update 100 # rest)
        \<and> input c' = [0, 0, 0, 0, 0] \<and> root c' = Some 101)"
proof -
  let ?c = "example_controller\<lparr>root := None, default_set := 0, animations := [], input := []\<rparr>"
  have r: "resource example_controller = Some 0" "resource ?c = Some 0"
    by (simp_all add: example_controller_def)
  have h: "root example_controller \<noteq> None" "root ?c = None" "isReady (resources example_env 0)"
    "decl_size (m_input_decl (resources example_env 0)) = 5"
    by (simp_all add: example_controller_def example_env_def example_resource_def isReady_def)
  have five: "replicate 5 (0::u8) = [0, 0, 0, 0, 0]"
    by (simp add: numeral_eq_Suc)
  from not_ready_teardown [OF r(1), of example_env 0 State_FAILURE "[]"] h
  have 1: "resource_changed_controller State_FAILURE 0 example_controller = (?c, [Delete (Some 100)])"
    by (simp add: example_controller_def)
  from not_ready_teardown [OF r(2), of example_env 0 State_FAILURE "[]"] h
  have 2: "\<exists>c' rest. updateController example_env ?c 0 =
            Inr (c', CreateInstance 0 100 # Enter 100 # Update 100 # rest)
        \<and> input c' = [0, 0, 0, 0, 0] \<and> root c' = Some 101"
    by (simp add: example_env_def five)
  from r(1) 1 2 show ?thesis by blast
qed

section \<open>Properties of the input setters\<close>

text \<open>
  C5, as the code has it. The specification says that a setter called with an index out of range
  logs a warning and touches nothing. The float setter returns without a log entry; the
  int and bool setters index \<^verbatim>\<open>decl.inputs\<close> with the index as given, an access outside
  the array (the example declaration has two slots).
\<close>

theorem setter_bad_index_counterexample:
  "setControllerFloatInput example_env [(7, example_controller)] 7 (- 1) 0 =
     Inr ([(7, example_controller)], [])
   \<and> setControllerIntInput example_env [(7, example_controller)] 7 2 0 = Inl OutOfBounds
   \<and> setControllerBoolInput example_env [(7, example_controller)] 7 (- 1) True = Inl OutOfBounds"
  by (simp add: setControllerFloatInput_def setControllerIntInput_def setControllerBoolInput_def
      example_controller_def example_env_def example_resource_def)

text \<open>
  C5, amended. On a controller that has a root, a setter called with an index inside the
  declaration whose slot has another type than the setter's logs a warning and leaves
  every controller, the input buffer included, as it was; the float setter called with
  an index outside the declaration returns with nothing changed and nothing logged.
  None of these calls is a fault. (What the int and bool setters do with an index outside
  the declaration is not part of the statement.)
\<close>

theorem setter_mismatch_or_float_range_noop:
  assumes "ctrl_get cs cmp = Inr c" and "root c \<noteq> None" and "resource c = Some r"
    and "slots = inputs (m_input_decl (resources e r))"
  shows "(0 \<le> i \<and> i < int (length slots) \<and> slot_type (slots ! nat i) \<noteq> Input_FLOAT \<longrightarrow>
            setControllerFloatInput e cs cmp i v =
              Inr (cs, [LogWarning (''Trying to set float to '' @ slot_name (slots ! nat i))]))
       \<and> (0 \<le> i \<and> i < int (length slots) \<and> slot_type (slots ! nat i) \<noteq> Input_INT \<longrightarrow>
            setControllerIntInput e cs cmp i v =
              Inr (cs, [LogWarning (''Trying to set int to '' @ slot_name (slots ! nat i))]))
       \<and> (0 \<le> i \<and> i < int (length slots) \<and> slot_type (slots ! nat i) \<noteq> Input_BOOL \<longrightarrow>
            setControllerBoolInput e cs cmp i b =
              Inr (cs, [LogWarning (''Trying to set bool to '' @ slot_name (slots ! nat i))]))
       \<and> (i < 0 \<or> int (length slots) \<le> i \<longrightarrow> setControllerFloatInput e cs cmp i v = Inr (cs, []))"
proof -
  have f: "0 \<le> i \<and> i < int (length slots) \<and> slot_type (slots ! nat i) \<noteq> Input_FLOAT \<longrightarrow>
            setControllerFloatInput e cs cmp i v =
              Inr (cs, [LogWarning (''Trying to set float to '' @ slot_name (slots ! nat i))])"
    using assms by (auto simp: setControllerFloatInput_def Let_def)
  have n: "0 \<le> i \<and> i < int (length slots) \<and> slot_type (slots ! nat i) \<noteq> Input_INT \<longrightarrow>
            setControllerIntInput e cs cmp i v =
              Inr (cs, [LogWarning (''Trying to set int to '' @ slot_name (slots ! nat i))])"
    using assms by (auto simp: setControllerIntInput_def Let_def)
  have b: "0 \<le> i \<and> i < int (length slots) \<and> slot_type (slots ! nat i) \<noteq> Input_BOOL \<longrightarrow>
            setControllerBoolInput e cs cmp i b =
              Inr (cs, [LogWarning (''Trying to set bool to '' @ slot_name (slots ! nat i))])"
    using assms by (auto simp: setControllerBoolInput_def Let_def)
  have o: "i < 0 \<or> int (length slots) \<le> i \<longrightarrow> setControllerFloatInput e cs cmp i v = Inr (cs, [])"
    using assms by (auto simp: setControllerFloatInput_def Let_def)
  from f n b o show ?thesis by blast
qed

theorem setter_mismatch_witness:
  "ctrl_get [(7, example_controller)] 7 = Inr example_controller
   \<and> root example_controller \<noteq> None \<and> resource example_controller = Some 0
   \<and> setControllerIntInput example_env [(7, example_controller)] 7 0 9 =
       Inr ([(7, example_controller)], [LogWarning ''Trying to set int to speed''])
   \<and> setControllerFloatInput example_env [(7, example_controller)] 7 1 9 =
       Inr ([(7, example_controller)], [LogWarning ''Trying to set float to jump''])"
proof -
  let ?slots = "inputs (m_input_decl (resources example_env 0))"
  have h: "ctrl_get [(7, example_controller)] 7 = Inr example_controller"
    "root example_controller \<noteq> None" "resource example_controller = Some 0"
    by (simp_all add: example_controller_def)
  have s: "?slots = [\<lparr>slot_type = Input_FLOAT, offset = 0, slot_name = ''speed''\<rparr>,
                     \<lparr>slot_type = Input_BOOL, offset = 4, slot_name = ''jump''\<rparr>]"
    by (simp add: example_env_def example_resource_def)
  from setter_mismatch_or_float_range_noop [OF h refl, where e = example_env and i = 0 and v = 9]
  have 1: "setControllerIntInput example_env [(7, example_controller)] 7 0 9 =
       Inr ([(7, example_controller)], [LogWarning ''Trying to set int to speed''])"
    by (simp add: s)
  from setter_mismatch_or_float_range_noop [OF h refl, where e = example_env and i = 1 and v = 9]
  have 2: "setControllerFloatInput example_env [(7, example_controller)] 7 1 9 =
       Inr ([(7, example_controller)], [LogWarning ''Trying to set float to jump''])"
    by (simp add: s)
  from h 1 2 show ?thesis by blast
qed

section \<open>Properties of the event stream\<close>

lemma u32_of_bytes_of_u32: "u32_of_bytes (bytes_of_u32 w) = w"
proof -
  have "bit (or (ucast (ucast w :: u8) :: u32) (or (push_bit 8 (ucast (ucast (drop_bit 8 w) :: u8)))
          (or (push_bit 16 (ucast (ucast (drop_bit 16 w) :: u8)))
              (push_bit 24 (ucast (ucast (drop_bit 24 w) :: u8)))))) n = bit w n" for n :: nat
  proof (cases "n < 32")
    case False
    then show ?thesis by (auto simp: bit_simps dest: bit_imp_le_length)
  next
    case True
    consider "n < 8" | "8 \<le> n" "n < 16" | "16 \<le> n" "n < 24" | "24 \<le> n" by linarith
    then show ?thesis using True by cases (auto simp: bit_simps)
  qed
  then show ?thesis
    unfolding u32_of_bytes_def bytes_of_u32_def
    by (simp add: bit_eq_iff)
qed

lemma length_bytes_of_u32: "length (bytes_of_u32 w) = 4"
  by (simp add: bytes_of_u32_def)

lemma frame_header:
  "frame r @ rest = bytes_of_u32 (type_hash r) @ bytes_of_u32 (owner_component r)
                    @ of_nat (length (payload r)) # payload r @ rest"
  by (simp add: frame_def)

text \<open>One round of the loop on a stream that starts with a nine-byte header.\<close>

lemma drain_step:
  assumes "length a = 4" and "length b = 4"
  shows "processEventStream e L (a @ b @ sz # tail) cs =
           (if u32_of_bytes a = crc32 e ''set_input'' then
              (if length tail < sizeof_SetInputEvent L then Inl ReadPastEnd
               else (case set_input_event e L cs (u32_of_bytes b) (take (sizeof_SetInputEvent L) tail) of
                       Inl f \<Rightarrow> Inl f
                     | Inr cs' \<Rightarrow> processEventStream e L (drop (sizeof_SetInputEvent L) tail) cs'))
            else processEventStream e L (drop (unat sz) tail) cs)"
  by (subst processEventStream.simps)
     (simp add: assms nth_append Let_def del: processEventStream.simps)

lemma drain_unknown:
  assumes "type_hash r \<noteq> crc32 e ''set_input''" and "length (payload r) < 256"
  shows "processEventStream e L (frame r @ rest) cs = processEventStream e L rest cs"
proof -
  have u: "unat (of_nat (length (payload r)) :: u8) = length (payload r)"
    using assms(2) by (simp add: unat_of_nat)
  show ?thesis
    unfolding frame_header
    by (subst drain_step) (simp_all add: length_bytes_of_u32 u32_of_bytes_of_u32 assms(1) u)
qed

lemma drain_set_input:
  assumes "type_hash r = crc32 e ''set_input''" and "length (payload r) = sizeof_SetInputEvent L"
  shows "processEventStream e L (frame r @ rest) cs =
           (case set_input_event e L cs (owner_component r) (payload r) of
              Inl f \<Rightarrow> Inl f
            | Inr cs' \<Rightarrow> processEventStream e L rest cs')"
  unfolding frame_header
  by (subst drain_step)
     (simp_all add: length_bytes_of_u32 u32_of_bytes_of_u32 assms(1) assms(2)[symmetric]
        split: sum.splits)

text \<open>The code's handling of a \<^verbatim>\<open>set_input\<close> event is the dispatch of the record as
  the spec words it.\<close>

lemma set_input_event_dispatch:
  assumes "type_hash r = crc32 e ''set_input''"
  shows "set_input_event e L cs (owner_component r) (payload r) = dispatch_record e L cs r"
proof (cases "ctrl_get cs (sint (owner_component r))")
  case (Inl f)
  with assms show ?thesis by (simp add: set_input_event_def dispatch_record_def)
next
  case (Inr c)
  show ?thesis
  proof (cases "resource c")
    case None
    with Inr assms show ?thesis by (simp add: set_input_event_def dispatch_record_def)
  next
    case (Some ra)
    show ?thesis
    proof (cases "slot_type (inputs (m_input_decl (resources e ra)) ! nat (ev_input_idx L (payload r)))")
      case Input_EMPTY
      with Inr Some assms show ?thesis
        by (simp add: set_input_event_def dispatch_record_def event_value_def Let_def)
    next
      case Input_BOOL
      with Inr Some assms show ?thesis
        by (simp add: set_input_event_def dispatch_record_def event_value_def write_bytes_def
            store_at_def Let_def)
    next
      case Input_INT
      with Inr Some assms show ?thesis
        by (simp add: set_input_event_def dispatch_record_def event_value_def write_bytes_def
            store_at_def Let_def)
    next
      case Input_FLOAT
      with Inr Some assms show ?thesis
        by (simp add: set_input_event_def dispatch_record_def event_value_def write_bytes_def
            store_at_def Let_def)
    qed
  qed
qed

lemma drain_in_order:
  assumes "\<forall>r \<in> set rs. well_formed_record e L r"
  shows "processEventStream e L (stream_of rs) cs = dispatch_in_order e L cs rs"
  using assms
proof (induction rs arbitrary: cs)
  case Nil
  show ?case by (simp add: stream_of_def)
next
  case (Cons r rs)
  have s: "stream_of (r # rs) = frame r @ stream_of rs" by (simp add: stream_of_def)
  from Cons.prems have wf: "well_formed_record e L r" and rest: "\<forall>r \<in> set rs. well_formed_record e L r"
    by simp_all
  show ?case
  proof (cases "type_hash r = crc32 e ''set_input''")
    case True
    with wf have len: "length (payload r) = sizeof_SetInputEvent L"
      by (simp add: well_formed_record_def)
    show ?thesis
      unfolding s drain_set_input [OF True len] set_input_event_dispatch [OF True]
      using Cons.IH [OF rest]
      by (simp split: sum.splits)
  next
    case False
    from wf have len: "length (payload r) < 256" by (simp add: well_formed_record_def)
    show ?thesis
      unfolding s drain_unknown [OF False len]
      using False Cons.IH [OF rest]
      by (simp add: dispatch_record_def)
  qed
qed

text \<open>What a store leaves in the buffer.\<close>

lemma store_at_props:
  assumes "off + length v \<le> length buf"
  shows "length (store_at buf off v) = length buf"
    and "take (length v) (drop off (store_at buf off v)) = v"
    and "j < length buf \<Longrightarrow> j < off \<or> off + length v \<le> j \<Longrightarrow> store_at buf off v ! j = buf ! j"
proof -
  from assms have lt: "length (take off buf) = off" by simp
  show "length (store_at buf off v) = length buf"
    using assms by (simp add: store_at_def)
  show "take (length v) (drop off (store_at buf off v)) = v"
    using assms by (simp add: store_at_def)
  show "store_at buf off v ! j = buf ! j" if "j < length buf" and "j < off \<or> off + length v \<le> j"
  proof (cases "j < off")
    case True
    with assms show ?thesis by (simp add: store_at_def nth_append)
  next
    case False
    with that have "off + length v \<le> j" by simp
    then obtain n where j: "j = (off + length v) + n" by (auto simp: le_iff_add)
    have l: "length (take off buf @ v) = off + length v" using lt by simp
    have "store_at buf off v ! j =
            ((take off buf @ v) @ drop (off + length v) buf) ! (length (take off buf @ v) + n)"
      unfolding l j by (simp add: store_at_def)
    also have "\<dots> = drop (off + length v) buf ! n"
      by (rule nth_append_length_plus)
    also have "\<dots> = buf ! j"
      using assms j by simp
    finally show ?thesis .
  qed
qed

lemma store_at_byte:
  assumes "off < length buf"
  shows "store_at buf off [b] = buf[off := b]"
  using assms by (simp add: store_at_def upd_conv_take_nth_drop)

text \<open>One round of the drain on a \<^verbatim>\<open>set_input\<close> record that names a typed slot of a
  ready controller, with the value that fits the buffer.\<close>

lemma drain_sets_slot:
  assumes "sets_slot e L cs r c slot" and "length (payload r) = sizeof_SetInputEvent L"
    and "event_value L (slot_type slot) (payload r) = Some v"
    and "offset slot + length v \<le> length (input c)"
  shows "processEventStream e L (frame r @ rest) cs =
           processEventStream e L rest
             (ctrl_put cs (sint (owner_component r)) (c\<lparr>input := store_at (input c) (offset slot) v\<rparr>))"
proof -
  from assms(1) have t: "type_hash r = crc32 e ''set_input''" by (simp add: sets_slot_def)
  from assms(1,3,4) have "dispatch_record e L cs r =
      Inr (ctrl_put cs (sint (owner_component r)) (c\<lparr>input := store_at (input c) (offset slot) v\<rparr>))"
    by (auto simp: sets_slot_def dispatch_record_def Let_def split: option.splits)
  then show ?thesis
    unfolding drain_set_input [OF t assms(2)] set_input_event_dispatch [OF t] by simp
qed

text \<open>
  C7, as the code has it. The specification says that the drain visits every well-formed
  record in append order. For a \<^verbatim>\<open>set_input\<close> record the drain reads an event
  (eight bytes in the example layout) and ignores \<^verbatim>\<open>payload_size\<close> (lines 1126-1129): after a
  \<^verbatim>\<open>set_input\<close> record with a payload of twelve bytes it takes the last four of them
  for the next header, and the \<^verbatim>\<open>set_input\<close> record that follows, for the controller
  of entity 12, is passed over as payload of a record of type 5 and never applied.
\<close>

theorem drain_misframes_counterexample:
  "length (payload \<lparr>type_hash = 9, owner_component = 7,
                    payload = [1, 0, 0, 0, 1, 0, 0, 0, 5, 0, 0, 0]\<rparr>) < 256
   \<and> length (payload \<lparr>type_hash = 9, owner_component = 12, payload = [1, 0, 0, 0, 0, 0, 0, 0]\<rparr>) < 256
   \<and> crc32 example_env ''set_input'' = 9
   \<and> stream_of [\<lparr>type_hash = 9, owner_component = 7, payload = [1, 0, 0, 0, 1, 0, 0, 0, 5, 0, 0, 0]\<rparr>,
                 \<lparr>type_hash = 9, owner_component = 12, payload = [1, 0, 0, 0, 0, 0, 0, 0]\<rparr>] =
       [9, 0, 0, 0, 7, 0, 0, 0, 12, 1, 0, 0, 0, 1, 0, 0, 0, 5, 0, 0, 0,
        9, 0, 0, 0, 12, 0, 0, 0, 8, 1, 0, 0, 0, 0, 0, 0, 0]
   \<and> processEventStream example_env example_layout
        [9, 0, 0, 0, 7, 0, 0, 0, 12, 1, 0, 0, 0, 1, 0, 0, 0, 5, 0, 0, 0,
         9, 0, 0, 0, 12, 0, 0, 0, 8, 1, 0, 0, 0, 0, 0, 0, 0]
        [(7, example_controller), (12, example_controller)] =
       Inr [(7, example_controller\<lparr>input := [1, 2, 3, 4, 1]\<rparr>), (12, example_controller)]
   \<and> dispatch_in_order example_env example_layout
        [(7, example_controller), (12, example_controller)]
        [\<lparr>type_hash = 9, owner_component = 7, payload = [1, 0, 0, 0, 1, 0, 0, 0, 5, 0, 0, 0]\<rparr>,
         \<lparr>type_hash = 9, owner_component = 12, payload = [1, 0, 0, 0, 0, 0, 0, 0]\<rparr>] =
       Inr [(7, example_controller\<lparr>input := [1, 2, 3, 4, 1]\<rparr>),
            (12, example_controller\<lparr>input := [1, 2, 3, 4, 0]\<rparr>)]"
  by code_simp

text \<open>
  C7, amended. On a stream that is the concatenation of records framed as
  \<^verbatim>\<open>[type_hash u32][owner_component u32][payload_size u8][payload]\<close>, in which every
  \<^verbatim>\<open>set_input\<close> record carries a payload of exactly the size of the event, the drain
  is the dispatch of the records one after the other in append order, to the end of the
  stream. A record of any other type changes nothing, never fails, and is passed over by
  exactly its header and its declared payload size, whatever follows it. A
  \<^verbatim>\<open>set_input\<close> record that names a slot of the declaration of its controller, whose
  resource is ready, stores the value of the event at the offset of the slot and
  nothing else: the byte of the bool for a bool slot, the four bytes of the int for an
  int slot, the four bytes of the float for a float slot, when they fit the buffer.
  When the resource is not ready the record changes nothing.
\<close>

theorem drain_dispatches_in_order:
  assumes "\<forall>r \<in> set rs. well_formed_record e L r"
  shows "processEventStream e L (stream_of rs) cs = dispatch_in_order e L cs rs
       \<and> (\<forall>r \<in> set rs. type_hash r \<noteq> crc32 e ''set_input'' \<longrightarrow>
            dispatch_record e L cs' r = Inr cs'
            \<and> processEventStream e L (frame r @ rest) cs' = processEventStream e L rest cs')
       \<and> (\<forall>r \<in> set rs. \<forall>c slot.
            sets_slot e L cs' r c slot \<and> slot_type slot = Input_BOOL
              \<and> offset slot < length (input c) \<longrightarrow>
            processEventStream e L (frame r @ rest) cs' =
              processEventStream e L rest
                (ctrl_put cs' (sint (owner_component r))
                   (c\<lparr>input := (input c)[offset slot := ev_b_value L (payload r)]\<rparr>)))
       \<and> (\<forall>r \<in> set rs. \<forall>c slot.
            sets_slot e L cs' r c slot \<and> slot_type slot = Input_INT
              \<and> offset slot + 4 \<le> length (input c) \<longrightarrow>
            (\<exists>buf. processEventStream e L (frame r @ rest) cs' =
                     processEventStream e L rest
                       (ctrl_put cs' (sint (owner_component r)) (c\<lparr>input := buf\<rparr>))
                 \<and> length buf = length (input c)
                 \<and> u32_of_bytes (take 4 (drop (offset slot) buf)) = ev_i_value L (payload r)
                 \<and> (\<forall>j < length buf. j < offset slot \<or> offset slot + 4 \<le> j \<longrightarrow> buf ! j = input c ! j)))
       \<and> (\<forall>r \<in> set rs. \<forall>c slot.
            sets_slot e L cs' r c slot \<and> slot_type slot = Input_FLOAT
              \<and> offset slot + 4 \<le> length (input c) \<longrightarrow>
            (\<exists>buf. processEventStream e L (frame r @ rest) cs' =
                     processEventStream e L rest
                       (ctrl_put cs' (sint (owner_component r)) (c\<lparr>input := buf\<rparr>))
                 \<and> length buf = length (input c)
                 \<and> u32_of_bytes (take 4 (drop (offset slot) buf)) = ev_f_value L (payload r)
                 \<and> (\<forall>j < length buf. j < offset slot \<or> offset slot + 4 \<le> j \<longrightarrow> buf ! j = input c ! j)))
       \<and> (\<forall>r \<in> set rs. \<forall>c ra.
            type_hash r = crc32 e ''set_input'' \<and> ctrl_get cs' (sint (owner_component r)) = Inr c
              \<and> resource c = Some ra \<and> \<not> isReady (resources e ra) \<longrightarrow>
            processEventStream e L (frame r @ rest) cs' = processEventStream e L rest cs')"
proof -
  have len: "length (payload r) = sizeof_SetInputEvent L"
    if "r \<in> set rs" and "type_hash r = crc32 e ''set_input''" for r
    using that assms by (auto simp: well_formed_record_def)
  have unknown: "dispatch_record e L cs' r = Inr cs'
      \<and> processEventStream e L (frame r @ rest) cs' = processEventStream e L rest cs'"
    if "r \<in> set rs" and "type_hash r \<noteq> crc32 e ''set_input''" for r
    using that assms drain_unknown [of r e L rest cs']
    by (simp add: well_formed_record_def dispatch_record_def)
  have bool: "processEventStream e L (frame r @ rest) cs' =
              processEventStream e L rest
                (ctrl_put cs' (sint (owner_component r))
                   (c\<lparr>input := (input c)[offset slot := ev_b_value L (payload r)]\<rparr>))"
    if "r \<in> set rs" and s: "sets_slot e L cs' r c slot" and t: "slot_type slot = Input_BOOL"
      and o: "offset slot < length (input c)" for r c slot
  proof -
    from s have "type_hash r = crc32 e ''set_input''" by (simp add: sets_slot_def)
    from len [OF that(1) this] have l: "length (payload r) = sizeof_SetInputEvent L" .
    have v: "event_value L (slot_type slot) (payload r) = Some [ev_b_value L (payload r)]"
      using t by (simp add: event_value_def)
    from drain_sets_slot [OF s l v] o show ?thesis by (simp add: store_at_byte)
  qed
  have word: "\<exists>buf. processEventStream e L (frame r @ rest) cs' =
                     processEventStream e L rest
                       (ctrl_put cs' (sint (owner_component r)) (c\<lparr>input := buf\<rparr>))
                 \<and> length buf = length (input c)
                 \<and> u32_of_bytes (take 4 (drop (offset slot) buf)) = w
                 \<and> (\<forall>j < length buf. j < offset slot \<or> offset slot + 4 \<le> j \<longrightarrow> buf ! j = input c ! j)"
    if "r \<in> set rs" and s: "sets_slot e L cs' r c slot"
      and v: "event_value L (slot_type slot) (payload r) = Some (bytes_of_u32 w)"
      and o: "offset slot + 4 \<le> length (input c)" for r c slot w
  proof -
    from s have "type_hash r = crc32 e ''set_input''" by (simp add: sets_slot_def)
    from len [OF that(1) this] have l: "length (payload r) = sizeof_SetInputEvent L" .
    from o have fit: "offset slot + length (bytes_of_u32 w) \<le> length (input c)"
      by (simp add: length_bytes_of_u32)
    let ?buf = "store_at (input c) (offset slot) (bytes_of_u32 w)"
    from store_at_props(2) [OF fit] have "take 4 (drop (offset slot) ?buf) = bytes_of_u32 w"
      by (simp add: length_bytes_of_u32)
    then have "u32_of_bytes (take 4 (drop (offset slot) ?buf)) = w"
      by (simp add: u32_of_bytes_of_u32)
    moreover have "\<forall>j < length ?buf. j < offset slot \<or> offset slot + 4 \<le> j \<longrightarrow> ?buf ! j = input c ! j"
      using store_at_props(1,3) [OF fit] by (simp add: length_bytes_of_u32)
    moreover note drain_sets_slot [OF s l v fit] store_at_props(1) [OF fit]
    ultimately show ?thesis by blast
  qed
  have int: "\<exists>buf. processEventStream e L (frame r @ rest) cs' =
                     processEventStream e L rest
                       (ctrl_put cs' (sint (owner_component r)) (c\<lparr>input := buf\<rparr>))
                 \<and> length buf = length (input c)
                 \<and> u32_of_bytes (take 4 (drop (offset slot) buf)) = ev_i_value L (payload r)
                 \<and> (\<forall>j < length buf. j < offset slot \<or> offset slot + 4 \<le> j \<longrightarrow> buf ! j = input c ! j)"
    if "r \<in> set rs" and "sets_slot e L cs' r c slot" and "slot_type slot = Input_INT"
      and "offset slot + 4 \<le> length (input c)" for r c slot
    using word [OF that(1,2) _ that(4), of "ev_i_value L (payload r)"] that(3)
    by (simp add: event_value_def)
  have float: "\<exists>buf. processEventStream e L (frame r @ rest) cs' =
                     processEventStream e L rest
                       (ctrl_put cs' (sint (owner_component r)) (c\<lparr>input := buf\<rparr>))
                 \<and> length buf = length (input c)
                 \<and> u32_of_bytes (take 4 (drop (offset slot) buf)) = ev_f_value L (payload r)
                 \<and> (\<forall>j < length buf. j < offset slot \<or> offset slot + 4 \<le> j \<longrightarrow> buf ! j = input c ! j)"
    if "r \<in> set rs" and "sets_slot e L cs' r c slot" and "slot_type slot = Input_FLOAT"
      and "offset slot + 4 \<le> length (input c)" for r c slot
    using word [OF that(1,2) _ that(4), of "ev_f_value L (payload r)"] that(3)
    by (simp add: event_value_def)
  have idle: "processEventStream e L (frame r @ rest) cs' = processEventStream e L rest cs'"
    if "r \<in> set rs" and t: "type_hash r = crc32 e ''set_input''"
      and "ctrl_get cs' (sint (owner_component r)) = Inr c" and "resource c = Some ra"
      and "\<not> isReady (resources e ra)" for r c ra
  proof -
    from that have "dispatch_record e L cs' r = Inr cs'" by (simp add: dispatch_record_def)
    then show ?thesis
      unfolding drain_set_input [OF t len [OF that(1) t]] set_input_event_dispatch [OF t] by simp
  qed
  from drain_in_order [OF assms] unknown bool int float idle show ?thesis by blast
qed

theorem drain_dispatches_witness:
  "well_formed_record example_env example_layout
     \<lparr>type_hash = 5, owner_component = 7, payload = [9, 9, 9]\<rparr>
   \<and> well_formed_record example_env example_layout
     \<lparr>type_hash = 9, owner_component = 7, payload = [1, 0, 0, 0, 1, 0, 0, 0]\<rparr>
   \<and> well_formed_record example_env example_layout
     \<lparr>type_hash = 9, owner_component = 7, payload = [0, 0, 0, 0, 0, 0, 128, 63]\<rparr>
   \<and> sets_slot example_env example_layout [(7, example_controller)]
        \<lparr>type_hash = 9, owner_component = 7, payload = [1, 0, 0, 0, 1, 0, 0, 0]\<rparr>
        example_controller (inputs (m_input_decl example_resource) ! 1)
   \<and> slot_type (inputs (m_input_decl example_resource) ! 1) = Input_BOOL
   \<and> offset (inputs (m_input_decl example_resource) ! 1) < length (input example_controller)
   \<and> processEventStream example_env example_layout
        [5, 0, 0, 0, 7, 0, 0, 0, 3, 9, 9, 9,
         9, 0, 0, 0, 7, 0, 0, 0, 8, 1, 0, 0, 0, 1, 0, 0, 0,
         9, 0, 0, 0, 7, 0, 0, 0, 8, 0, 0, 0, 0, 0, 0, 128, 63]
        [(7, example_controller)] =
       Inr [(7, example_controller\<lparr>input := [0, 0, 128, 63, 1]\<rparr>)]"
proof -
  let ?a = "\<lparr>type_hash = 5, owner_component = 7, payload = [9, 9, 9]\<rparr> :: event_record"
  let ?b = "\<lparr>type_hash = 9, owner_component = 7, payload = [1, 0, 0, 0, 1, 0, 0, 0]\<rparr> :: event_record"
  let ?c = "\<lparr>type_hash = 9, owner_component = 7, payload = [0, 0, 0, 0, 0, 0, 128, 63]\<rparr> :: event_record"
  have a: "well_formed_record example_env example_layout ?a" by code_simp
  have b: "well_formed_record example_env example_layout ?b" by code_simp
  have c: "well_formed_record example_env example_layout ?c" by code_simp
  have wf: "\<forall>r \<in> set [?a, ?b, ?c]. well_formed_record example_env example_layout r"
    using a b c by simp
  have s: "stream_of [?a, ?b, ?c] =
        [5, 0, 0, 0, 7, 0, 0, 0, 3, 9, 9, 9,
         9, 0, 0, 0, 7, 0, 0, 0, 8, 1, 0, 0, 0, 1, 0, 0, 0,
         9, 0, 0, 0, 7, 0, 0, 0, 8, 0, 0, 0, 0, 0, 0, 128, 63]" by code_simp
  have d: "dispatch_in_order example_env example_layout [(7, example_controller)] [?a, ?b, ?c] =
       Inr [(7, example_controller\<lparr>input := [0, 0, 128, 63, 1]\<rparr>)]" by code_simp
  have t: "sets_slot example_env example_layout [(7, example_controller)] ?b
             example_controller (inputs (m_input_decl example_resource) ! 1)
           \<and> slot_type (inputs (m_input_decl example_resource) ! 1) = Input_BOOL
           \<and> offset (inputs (m_input_decl example_resource) ! 1) < length (input example_controller)"
    by code_simp
  from drain_dispatches_in_order [OF wf, where cs = "[(7, example_controller)]"]
  have "processEventStream example_env example_layout (stream_of [?a, ?b, ?c]) [(7, example_controller)] =
        dispatch_in_order example_env example_layout [(7, example_controller)] [?a, ?b, ?c]"
    by blast
  with s d a b c t show ?thesis by simp
qed

section \<open>Properties of the ragdoll bone tree\<close>

lemma length_set [simp]:
  "length (set_child h a v) = length h" "length (set_next h a v) = length h"
  "length (set_prev h a v) = length h" "length (set_parent h a v) = length h"
  "length (set_parent_joint h a j) = length h"
  "length (set_prev_if h p v) = length h" "length (set_next_if h p v) = length h"
  by (simp_all add: set_child_def set_next_def set_prev_def set_parent_def set_parent_joint_def
      set_prev_if_def set_next_if_def split: option.splits)

lemma length_changeRagdollBoneJoint:
  "changeRagdollBoneJoint k h c t = Inr h' \<Longrightarrow> length h' = length h"
  by (auto simp: changeRagdollBoneJoint_def Let_def split: option.splits prod.splits joint_type.splits)

lemma length_disconnect_children:
  "disconnect_children n k s par c = Inr s' \<Longrightarrow> length (heap s') = length (heap s)"
proof (induction n k s par c arbitrary: s' rule: disconnect_children.induct)
  case (1 n k s par)
  then show ?case by simp
next
  case (2 k s par c)
  then show ?case by simp
next
  case (3 n k s par c)
  show ?case
  proof (cases par)
    case None
    with "3.prems" "3.IH"(1) [OF refl refl refl None refl refl refl refl] show ?thesis
      by (simp add: Let_def)
  next
    case (Some p)
    with "3.prems" obtain h7 where
      j: "changeRagdollBoneJoint k
            (set_parent (set_child (set_prev_if (set_prev (set_next (set_parent_joint (heap s) c None) c
               (child (set_parent_joint (heap s) c None ! p))) c None)
               (next (set_prev (set_next (set_parent_joint (heap s) c None) c
               (child (set_parent_joint (heap s) c None ! p))) c None ! c)) (Some c)) p (Some c)) c (Some p))
            c eREVOLUTE = Inr h7"
      and r: "disconnect_children n k (s\<lparr>heap := h7\<rparr>) par (next (heap s ! c)) = Inr s'"
      by (auto simp: Let_def split: sum.splits)
    from "3.IH"(2) [OF refl refl refl Some refl refl refl refl refl j] r Some
    have "length (heap s') = length h7" by simp
    with length_changeRagdollBoneJoint [OF j] show ?thesis by simp
  qed
qed


lemma disconnect_bone_fields:
  assumes "bone < length (heap s)" and "disconnect n k s bone = Inr s'"
  shows "parent (heap s' ! bone) = None" and "child (heap s' ! bone) = None"
    and "parent_joint (heap s' ! bone) = None"
    and "next (heap s' ! bone) = ragdoll_root s'"
    and "ragdoll_root s' \<noteq> Some bone \<Longrightarrow> prev (heap s' ! bone) = None"
    and "length (heap s') = length (heap s)"
    and "ragdoll_root s' = Some q \<Longrightarrow> q < length (heap s) \<Longrightarrow> prev (heap s' ! q) = Some bone"
proof -
  define h1 where "h1 = (case parent (heap s ! bone) of None \<Rightarrow> heap s
       | Some p \<Rightarrow> if child (heap s ! p) = Some bone
                   then set_child (heap s) p (next (heap s ! bone)) else heap s)"
  define r1 where "r1 = (if ragdoll_root s = Some bone then next (h1 ! bone) else ragdoll_root s)"
  define h2 where "h2 = set_next_if h1 (prev (h1 ! bone)) (next (h1 ! bone))"
  define h3 where "h3 = set_prev_if h2 (next (h2 ! bone)) (prev (h2 ! bone))"
  define finish where "finish = (\<lambda>s4 :: ragdoll. s4\<lparr>heap :=
                 set_prev_if
                   (set_next (set_prev (set_child (set_parent (set_parent_joint (heap s4) bone None)
                      bone None) bone None) bone None) bone (ragdoll_root s4))
                   (next (set_next (set_prev (set_child (set_parent (set_parent_joint (heap s4) bone None)
                      bone None) bone None) bone None) bone (ragdoll_root s4) ! bone))
                   (Some bone)\<rparr>)"
  have d: "disconnect n k s bone =
             (case disconnect_children n k \<lparr>heap = h3, ragdoll_root = r1\<rparr>
                     (parent (heap s ! bone)) (child (heap s ! bone)) of
                Inl f \<Rightarrow> Inl f
              | Inr s4 \<Rightarrow> Inr (finish s4))"
    unfolding disconnect_def Let_def h1_def r1_def h2_def h3_def finish_def ..
  have h3: "length h3 = length (heap s)"
    by (simp add: h3_def h2_def h1_def split: option.splits)
  from assms(2) d obtain s4 where
    loop: "disconnect_children n k \<lparr>heap = h3, ragdoll_root = r1\<rparr>
                 (parent (heap s ! bone)) (child (heap s ! bone)) = Inr s4"
    and fin: "s' = finish s4"
    by (auto split: sum.splits)
  from length_disconnect_children [OF loop] h3 have len: "length (heap s4) = length (heap s)"
    by simp
  with assms(1) have b: "bone < length (heap s4)" by simp
  show "parent (heap s' ! bone) = None" "child (heap s' ! bone) = None"
    "parent_joint (heap s' ! bone) = None" "next (heap s' ! bone) = ragdoll_root s'"
    "length (heap s') = length (heap s)"
    using b len unfolding fin finish_def
    by (auto simp: set_child_def set_next_def set_prev_def set_parent_def set_parent_joint_def
        set_prev_if_def nth_list_update split: option.splits)
  show "prev (heap s' ! bone) = None" if "ragdoll_root s' \<noteq> Some bone"
    using b that unfolding fin finish_def
    by (auto simp: set_child_def set_next_def set_prev_def set_parent_def set_parent_joint_def
        set_prev_if_def nth_list_update split: option.splits)
  show "prev (heap s' ! q) = Some bone" if "ragdoll_root s' = Some q" and "q < length (heap s)"
    using b len that unfolding fin finish_def
    by (auto simp: set_child_def set_next_def set_prev_def set_parent_def set_parent_joint_def
        set_prev_if_def nth_list_update split: option.splits)
qed


lemma on_chain_pred:
  "on_chain h p b \<Longrightarrow> p = Some b \<or> (\<exists>q. on_chain h p q \<and> next (h ! q) = Some b)"
proof (induction rule: on_chain.induct)
  case (first h b)
  then show ?case by simp
next
  case (later h a b)
  then show ?case by (auto intro: on_chain.intros)
qed

lemma on_chain_live:
  "on_chain h p q \<Longrightarrow> \<forall>a < length h. ptr_ok h (next (h ! a)) \<Longrightarrow> ptr_ok h p \<Longrightarrow> q < length h"
proof (induction rule: on_chain.induct)
  case (first h b)
  then show ?case by (simp add: ptr_ok_def)
next
  case (later h a b)
  from later.prems(2) have "a < length h" by (simp add: ptr_ok_def)
  with later.prems(1) have "ptr_ok h (next (h ! a))" by simp
  with later.IH later.prems(1) show ?case by simp
qed

lemma next_chain_on_chain:
  "b \<in> set (next_chain n h p) \<Longrightarrow> on_chain h p b"
  by (induction n h p rule: next_chain.induct) (auto intro: on_chain.intros)

lemma next_chain_self_loop:
  assumes "next (h ! b) = Some b"
  shows "\<not> distinct (next_chain (Suc (Suc n)) h (Some b))"
  using assms by simp

text \<open>After \<^verbatim>\<open>disconnect\<close> the bone is not on the root chain of a ragdoll whose
  sibling links are consistent: its \<^verbatim>\<open>next\<close> is \<^verbatim>\<open>ragdoll.root\<close>, so as the root it
  would be its own \<^verbatim>\<open>next\<close>, and otherwise its \<^verbatim>\<open>prev\<close> is null, so that no bone of the
  chain can be its predecessor.\<close>

lemma disconnect_bone_off_chain:
  assumes "bone < length (heap s)" and "disconnect n k s bone = Inr s'"
    and c: "links_consistent s'"
  shows "\<not> on_chain (heap s') (ragdoll_root s') bone"
proof
  assume m: "on_chain (heap s') (ragdoll_root s') bone"
  note f = disconnect_bone_fields [OF assms(1,2)]
  from f(6) assms(1) have b: "bone < length (heap s')" by simp
  from c have live: "\<forall>a < length (heap s'). ptr_ok (heap s') (next (heap s' ! a))"
    and links: "\<forall>a < length (heap s'). back_links_ok (heap s') a"
    and root: "ptr_ok (heap s') (ragdoll_root s')"
    and dist: "distinct (root_chain s')"
    by (auto simp: links_consistent_def list_all_iff bone_ptrs_ok_def)
  show False
  proof (cases "ragdoll_root s' = Some bone")
    case True
    with f(4) have "next (heap s' ! bone) = Some bone" by simp
    moreover from b obtain m where "length (heap s') = Suc m" by (cases "length (heap s')") auto
    ultimately have "\<not> distinct (root_chain s')"
      using True by (simp add: root_chain_def)
    with dist show False by simp
  next
    case False
    with f(5) have p: "prev (heap s' ! bone) = None" by simp
    from on_chain_pred [OF m] False
    obtain q where q: "on_chain (heap s') (ragdoll_root s') q" and nq: "next (heap s' ! q) = Some bone"
      by auto
    from on_chain_live [OF q live root] have "q < length (heap s')" .
    with links have "back_links_ok (heap s') q" by simp
    with nq have "prev (heap s' ! bone) = Some q" by (simp add: back_links_ok_def)
    with p show False by simp
  qed
qed

text \<open>The loop over the siblings moves a bone only when the new bone comes out as its
  own physical parent: the test at line 1734 compares the new bone with the physical
  parent of the new bone's own skeleton bone.\<close>

lemma closer_siblings_moves_nothing:
  assumes "\<forall>j. getPhyParent j m s (pose_bone_idx (heap s ! bone)) \<noteq> Inr (Some bone)"
  shows "closer_siblings n k m s bone c = Inr s' \<Longrightarrow> s' = s"
proof (induction n arbitrary: c)
  case 0
  then show ?case by (cases c) simp_all
next
  case (Suc n)
  show ?case
  proof (cases c)
    case None
    with Suc.prems show ?thesis by simp
  next
    case (Some a)
    from assms have "getPhyParent n m s (pose_bone_idx (heap s ! bone)) \<noteq> Inr (Some bone)"
      by simp
    with Suc.prems Some have "closer_siblings n k m s bone (next (heap s ! a)) = Inr s'"
      by (auto split: if_splits sum.splits)
    then show ?thesis by (rule Suc.IH)
  qed
qed

text \<open>The physical parent found for a skeleton bone is the ragdoll bone of a skeleton
  bone with a smaller index, when every skeleton bone comes after its parent.\<close>

lemma getBone_idx:
  "getBone n h p idx = Inr (Some b) \<Longrightarrow> pose_bone_idx (h ! b) = idx"
proof (induction n h p idx rule: getBone.induct)
  case (3 n h a idx)
  then show ?case by (auto split: if_splits sum.splits option.splits)
qed simp_all

lemma getBoneIndex_from_first:
  "getBoneIndex_from bs h i0 = Some j \<Longrightarrow> t < length bs \<Longrightarrow> name_hash (bs ! t) = h
     \<Longrightarrow> j \<le> i0 + t"
proof (induction bs arbitrary: i0 t)
  case Nil
  then show ?case by simp
next
  case (Cons b bs)
  show ?case
  proof (cases "name_hash b = h")
    case True
    with Cons.prems show ?thesis by simp
  next
    case False
    with Cons.prems obtain t' where t: "t = Suc t'" by (cases t) auto
    with False Cons.prems Cons.IH [of "Suc i0" t'] show ?thesis by simp
  qed
qed

lemma getRagdollBoneByName_idx:
  assumes "getRagdollBoneByName n m s (name_hash (m ! i)) = Inr (Some b)" and "i < length m"
  shows "pose_bone_idx (heap s ! b) \<le> int i"
proof -
  from assms(1) obtain j where j: "getBoneIndex m (name_hash (m ! i)) = Some j"
    and g: "getBone n (heap s) (ragdoll_root s) (int j) = Inr (Some b)"
    by (auto simp: getRagdollBoneByName_def split: option.splits)
  from getBoneIndex_from_first [OF j [unfolded getBoneIndex_def] assms(2) refl] have "j \<le> i" by simp
  with getBone_idx [OF g] show ?thesis by simp
qed

lemma ancestors_precedeD:
  assumes "ancestors_precede m" and "0 \<le> i" and "i < int (length m)"
  shows "parent_idx (m ! nat i) < i"
proof -
  from assms(2,3) have "nat i < length m" by simp
  moreover from assms(1) have "\<forall>j < length m. parent_idx (m ! j) < int j"
    by (simp add: ancestors_precede_def list_all_iff)
  ultimately have "parent_idx (m ! nat i) < int (nat i)" by blast
  with assms(2) show ?thesis by simp
qed

lemma getPhyParent_loop_idx:
  assumes "ancestors_precede m"
  shows "getPhyParent_loop n m s pidx = Inr (Some b) \<Longrightarrow> pose_bone_idx (heap s ! b) \<le> pidx"
proof (induction n arbitrary: pidx)
  case 0
  then show ?case by simp
next
  case (Suc n)
  from Suc.prems have r: "0 \<le> pidx" "pidx < int (length m)"
    by (auto split: if_splits)
  then have i: "nat pidx < length m" by simp
  from ancestors_precedeD [OF assms r] have up: "parent_idx (m ! nat pidx) < pidx" .
  from Suc.prems r obtain phy where
    p: "getRagdollBoneByName n m s (name_hash (m ! nat pidx)) = Inr phy"
    and q: "(if phy = None \<and> parent_idx (m ! nat pidx) \<ge> 0
             then getPhyParent_loop n m s (parent_idx (m ! nat pidx)) else Inr phy) = Inr (Some b)"
    by (auto simp: Let_def split: sum.splits)
  show ?case
  proof (cases "phy = None \<and> parent_idx (m ! nat pidx) \<ge> 0")
    case True
    with q have "getPhyParent_loop n m s (parent_idx (m ! nat pidx)) = Inr (Some b)" by simp
    from Suc.IH [OF this] up show ?thesis by simp
  next
    case False
    with q have "phy = Some b" by (simp split: if_splits)
    with p getRagdollBoneByName_idx [OF _ i] r show ?thesis by simp
  qed
qed

lemma getPhyParent_idx:
  assumes "ancestors_precede m" and "getPhyParent n m s idx = Inr (Some b)"
  shows "pose_bone_idx (heap s ! b) < idx"
proof -
  from assms(2) have r: "0 \<le> idx" "idx < int (length m)"
    and l: "getPhyParent_loop n m s (parent_idx (m ! nat idx)) = Inr (Some b)"
    by (auto simp: getPhyParent_def Let_def split: if_splits)
  from ancestors_precedeD [OF assms(1) r] have "parent_idx (m ! nat idx) < idx" .
  with getPhyParent_loop_idx [OF assms(1) l] show ?thesis by simp
qed

text \<open>A bone whose joint is spherical is never written: the serializer stops at the
  assertion, or before; and so for every tree that holds the bone.\<close>

lemma spherical_joint_stops_serializer:
  assumes "parent_joint (h ! b) = Some j" and "getConcreteType j = eSPHERICAL"
  shows "serializeRagdollJoint h b = Inl AssertFailed"
  using assms by (auto simp: serializeRagdollJoint_def Let_def split: joint_class.splits)

lemma serializer_stops_below:
  "reach h p b \<Longrightarrow> serializeRagdollJoint h b = Inl AssertFailed
     \<Longrightarrow> serializeRagdollBone n h p \<noteq> Inr blob"
proof (induction arbitrary: n blob rule: reach.induct)
  case (here h b)
  then show ?case by (cases n) (auto simp: Let_def split: sum.splits)
next
  case (down h a b)
  show ?case
  proof (cases n)
    case 0
    then show ?thesis by simp
  next
    case (Suc m)
    from down.IH [OF down.prems] have "\<And>cs. serializeRagdollBone m h (child (h ! a)) \<noteq> Inr cs" .
    then show ?thesis using Suc by (auto simp: Let_def split: sum.splits)
  qed
next
  case (along h a b)
  show ?case
  proof (cases n)
    case 0
    then show ?thesis by simp
  next
    case (Suc m)
    from along.IH [OF along.prems] have "\<And>ns. serializeRagdollBone m h (next (h ! a)) \<noteq> Inr ns" .
    then show ?thesis using Suc by (auto simp: Let_def split: sum.splits)
  qed
qed

lemma changeRagdollBoneJoint_spherical:
  assumes "changeRagdollBoneJoint k h b eSPHERICAL = Inr h'" and "b < length h"
  shows "\<exists>j. parent_joint (h' ! b) = Some j \<and> getConcreteType j = eSPHERICAL"
  using assms
  by (auto simp: changeRagdollBoneJoint_def set_parent_joint_def Let_def
      split: option.splits prod.splits)

section \<open>The ragdoll operations against the specification\<close>

text \<open>
  C2, where it fails. Whatever the ragdoll and the bone, whenever \<^verbatim>\<open>disconnect\<close>
  returns, the tree it leaves is not consistent: the bone has no parent and its \<^verbatim>\<open>next\<close>
  is \<^verbatim>\<open>ragdoll.root\<close> (lines 1694-1695 link it in front of the root bone and do not store
  it in \<^verbatim>\<open>ragdoll.root\<close>, as line 1684 does for a promoted child), so either it is the
  root and its own \<^verbatim>\<open>next\<close>, or its \<^verbatim>\<open>prev\<close> is null and no bone of the root chain can
  be its predecessor: a parentless bone that is not on the root chain.
\<close>

theorem disconnect_never_consistent:
  assumes "bone < length (heap s)" and "disconnect n k s bone = Inr s'"
  shows "\<not> tree_consistent s'"
proof
  assume c: "tree_consistent s'"
  note f = disconnect_bone_fields [OF assms]
  from f(6) assms(1) have "bone < length (heap s')" by simp
  with c f(1) have "on_chain (heap s') (ragdoll_root s') bone"
    by (simp add: tree_consistent_def)
  moreover from c have "links_consistent s'" by (simp add: tree_consistent_def)
  ultimately show False using disconnect_bone_off_chain [OF assms] by simp
qed

text \<open>The ragdoll of one bone is consistent; \<^verbatim>\<open>disconnect\<close> of its bone leaves
  \<^verbatim>\<open>ragdoll.root\<close> null and the bone on no chain.\<close>

theorem disconnect_never_consistent_witness:
  "create_bones 8 example_sdk chain_skeleton empty_ragdoll [10] = Inr one_bone_ragdoll
   \<and> tree_consistent one_bone_ragdoll
   \<and> 0 < length (heap one_bone_ragdoll)
   \<and> disconnect 8 example_sdk one_bone_ragdoll 0 = Inr (one_bone_ragdoll\<lparr>ragdoll_root := None\<rparr>)
   \<and> \<not> tree_consistent (one_bone_ragdoll\<lparr>ragdoll_root := None\<rparr>)"
proof -
  have c: "create_bones 8 example_sdk chain_skeleton empty_ragdoll [10] = Inr one_bone_ragdoll"
    by code_simp
  have "links_consistent one_bone_ragdoll"
    by code_simp
  moreover have "on_chain (heap one_bone_ragdoll) (ragdoll_root one_bone_ragdoll) 0"
    by (simp add: one_bone_ragdoll_def on_chain.first)
  ultimately have t: "tree_consistent one_bone_ragdoll"
    by (simp add: tree_consistent_def one_bone_ragdoll_def)
  have l: "0 < length (heap one_bone_ragdoll)"
    by (simp add: one_bone_ragdoll_def)
  have d: "disconnect 8 example_sdk one_bone_ragdoll 0 = Inr (one_bone_ragdoll\<lparr>ragdoll_root := None\<rparr>)"
    by code_simp
  from disconnect_never_consistent [OF l d] c t l d show ?thesis by blast
qed

text \<open>
  C3, where it fails. Whenever \<^verbatim>\<open>disconnect\<close> returns, the bone has no parent, no
  child and no joint, its \<^verbatim>\<open>next\<close> is \<^verbatim>\<open>ragdoll.root\<close> and the \<^verbatim>\<open>prev\<close> of the root
  bone is the bone; but it is not an entry of
  the root list: in a ragdoll whose sibling links are consistent, following \<^verbatim>\<open>next\<close>
  from \<^verbatim>\<open>ragdoll.root\<close> never reaches it (lines 1694-1695 do not store the bone in
  \<^verbatim>\<open>ragdoll.root\<close>, as line 1684 does for a promoted child).
\<close>

theorem disconnect_leaves_bone_off_root_list:
  assumes "bone < length (heap s)" and "disconnect n k s bone = Inr s'"
  shows "parent (heap s' ! bone) = None \<and> child (heap s' ! bone) = None
       \<and> parent_joint (heap s' ! bone) = None
       \<and> next (heap s' ! bone) = ragdoll_root s'
       \<and> (\<forall>q < length (heap s). ragdoll_root s' = Some q \<longrightarrow> prev (heap s' ! q) = Some bone)
       \<and> (links_consistent s' \<longrightarrow> \<not> on_chain (heap s') (ragdoll_root s') bone)"
  using disconnect_bone_fields(1-4,7) [OF assms] disconnect_bone_off_chain [OF assms]
  by blast

text \<open>The ragdoll built by \<^verbatim>\<open>createRagdollBone\<close> on the chain skeleton in the order
  0, 1, 2: bone 0 is the root, bone 1 its child, bone 2 the child of bone 1. After
  \<^verbatim>\<open>disconnect\<close> of bone 1 its child, bone 2, is a child of bone 0 with a new joint, and
  bone 1 has no parent, no child and no joint; its \<^verbatim>\<open>next\<close> is the root bone and the
  root bone's \<^verbatim>\<open>prev\<close> is bone 1, the sibling links are consistent, and the root list,
  followed from \<^verbatim>\<open>ragdoll.root\<close>, is bone 0 alone.\<close>

theorem disconnect_leaves_bone_off_root_list_witness:
  "links chain_ragdoll = ([(0, None, Some 1, None, None, False),
                           (1, Some 0, Some 2, None, None, True),
                           (2, Some 1, None, None, None, True)], Some 0)
   \<and> 1 < length (heap chain_ragdoll)
   \<and> disconnect 8 example_sdk chain_ragdoll 1 = Inr chain_ragdoll_without_1
   \<and> links chain_ragdoll_without_1 = ([(0, None, Some 2, None, Some 1, False),
                                        (1, None, None, Some 0, None, False),
                                        (2, Some 0, None, None, None, True)], Some 0)
   \<and> links_consistent chain_ragdoll_without_1
   \<and> root_chain chain_ragdoll_without_1 = [0]
   \<and> \<not> on_chain (heap chain_ragdoll_without_1) (ragdoll_root chain_ragdoll_without_1) 1"
proof -
  have a: "links chain_ragdoll = ([(0, None, Some 1, None, None, False),
                           (1, Some 0, Some 2, None, None, True),
                           (2, Some 1, None, None, None, True)], Some 0)"
    by code_simp
  have l: "1 < length (heap chain_ragdoll)"
    by code_simp
  have d: "disconnect 8 example_sdk chain_ragdoll 1 = Inr chain_ragdoll_without_1"
    by code_simp
  have b: "links chain_ragdoll_without_1 = ([(0, None, Some 2, None, Some 1, False),
                                        (1, None, None, Some 0, None, False),
                                        (2, Some 0, None, None, None, True)], Some 0)"
    by code_simp
  have c: "links_consistent chain_ragdoll_without_1"
    by code_simp
  have r: "root_chain chain_ragdoll_without_1 = [0]"
    by code_simp
  from disconnect_leaves_bone_off_root_list [OF l d] c
  have "\<not> on_chain (heap chain_ragdoll_without_1) (ragdoll_root chain_ragdoll_without_1) 1"
    by blast
  with a l d b c r show ?thesis by blast
qed

text \<open>After \<^verbatim>\<open>disconnect\<close> of bone 0 of the same ragdoll, which has no parent, its
  child bone 1 is promoted to the root list and \<^verbatim>\<open>ragdoll.root\<close> is bone 1; bone 0 is
  linked in front of it and not on the list.\<close>

lemma disconnect_promotes_children:
  "map_sum id (\<lambda>s'. (links s', root_chain s')) (disconnect 8 example_sdk chain_ragdoll 0) =
     Inr (([(0, None, None, Some 1, None, False),
            (1, None, Some 2, None, Some 0, False),
            (2, Some 1, None, None, None, True)], Some 1), [1])"
  by code_simp

text \<open>
  The same at two ragdolls built by \<^verbatim>\<open>createRagdollBone\<close>, whose sibling links are
  consistent. After
  \<^verbatim>\<open>disconnect\<close> of the only bone of the first, \<^verbatim>\<open>ragdoll.root\<close> is null and the bone,
  which has no parent, is on no root chain. After \<^verbatim>\<open>disconnect\<close> of the last root of
  the second (two parentless bones of the fork skeleton), the bone is linked in front
  of the root bone while \<^verbatim>\<open>ragdoll.root\<close> still points at the old root.
  \<^verbatim>\<open>connect\<close> of that last root under the first one, called
  on the consistent ragdoll, leaves the \<^verbatim>\<open>prev\<close> of the connected bone pointing at its
  former neighbour (\<^verbatim>\<open>connect\<close> never stores to \<^verbatim>\<open>child->prev\<close>), whose \<^verbatim>\<open>next\<close>
  is null.
\<close>

lemma disconnect_breaks_root_chain:
  "(case create_bones 8 example_sdk chain_skeleton empty_ragdoll [10] of
      Inl f \<Rightarrow> False
    | Inr s \<Rightarrow>
        links_consistent s
        \<and> (case disconnect 8 example_sdk s 0 of
              Inl f \<Rightarrow> False
            | Inr s' \<Rightarrow>
                links s' = ([(0, None, None, None, None, False)], None)
                \<and> root_chain s' = []))
   \<and> (case create_bones 8 example_sdk fork_skeleton empty_ragdoll [11, 12] of
         Inl f \<Rightarrow> False
       | Inr s \<Rightarrow>
           links s = ([(1, None, None, None, Some 1, False),
                       (2, None, None, Some 0, None, False)], Some 1)
           \<and> links_consistent s
           \<and> (case disconnect 8 example_sdk s 0 of
                 Inl f \<Rightarrow> False
               | Inr s' \<Rightarrow>
                   links s' = ([(1, None, None, Some 1, None, False),
                                (2, None, None, None, Some 0, False)], Some 1)
                   \<and> root_chain s' = [1])
           \<and> (case connect example_sdk s 0 1 of
                 Inl f \<Rightarrow> False
               | Inr s' \<Rightarrow>
                   links s' = ([(1, Some 1, None, None, Some 1, True),
                                (2, None, Some 0, None, None, False)], Some 1)
                   \<and> \<not> back_links_ok (heap s') 0 \<and> \<not> links_consistent s'))"
  by code_simp

text \<open>
  C4, where it fails. The loop over the siblings of the new bone compares the new bone
  with the physical parent of \<^verbatim>\<open>bone->pose_bone_idx\<close>, the new bone's own skeleton bone
  (line 1733), not of the sibling's. On every skeleton whose bones come after their
  parents that parent is never the new bone, so the loop reparents no sibling at all,
  whatever the ragdoll: when it returns, the ragdoll is as it was.
\<close>

theorem sibling_loop_never_reparents:
  assumes "ancestors_precede m" and "closer_siblings n k m s bone c = Inr s'"
  shows "s' = s"
proof -
  have "getPhyParent j m s (pose_bone_idx (heap s ! bone)) \<noteq> Inr (Some bone)" for j
    using getPhyParent_idx [OF assms(1), of j s "pose_bone_idx (heap s ! bone)" bone] by auto
  then show ?thesis using closer_siblings_moves_nothing assms(2) by blast
qed

text \<open>The chain skeleton, created in the order 0, 2, 1: when bone 1 is created, bone 2
  (at address 1) is a child of bone 0 and so a sibling of the new bone (at address 2);
  the closest existing ancestor of bone 2 is the new bone, and bone 2 stays under
  bone 0.\<close>

theorem sibling_loop_never_reparents_witness:
  "ancestors_precede chain_skeleton
   \<and> links late_middle_ragdoll = ([(0, None, Some 2, None, None, False),
                                   (2, Some 0, None, None, Some 2, True),
                                   (1, Some 0, None, Some 1, None, True)], Some 0)
   \<and> closer_siblings 8 example_sdk chain_skeleton late_middle_ragdoll 2 (Some 2) =
       Inr late_middle_ragdoll
   \<and> getPhyParent 8 chain_skeleton late_middle_ragdoll 2 = Inr (Some 2)"
proof -
  have p: "ancestors_precede chain_skeleton"
    by code_simp
  have l: "links late_middle_ragdoll = ([(0, None, Some 2, None, None, False),
                                   (2, Some 0, None, None, Some 2, True),
                                   (1, Some 0, None, Some 1, None, True)], Some 0)"
    by code_simp
  have c: "closer_siblings 8 example_sdk chain_skeleton late_middle_ragdoll 2 (Some 2) =
       Inr late_middle_ragdoll"
    by code_simp
  have g: "getPhyParent 8 chain_skeleton late_middle_ragdoll 2 = Inr (Some 2)"
    by code_simp
  from sibling_loop_never_reparents [OF p c] p l c g show ?thesis by blast
qed

text \<open>The same through \<^verbatim>\<open>createRagdollBone\<close>, and the loop over the root list, which
  is left by \<^verbatim>\<open>break\<close> after the first bone it moves: on the fork skeleton, created in
  the order 1, 2, 0, both existing root bones have the new bone 0 (at address 2) as
  closest existing ancestor; bone 2 is moved under it and bone 1 (at address 0) stays a
  root.\<close>

lemma findCloserChildren_leaves_closer_bones:
  "(case create_bones 8 example_sdk chain_skeleton empty_ragdoll [10, 12, 11] of
      Inl f \<Rightarrow> False
    | Inr s \<Rightarrow>
        links s = ([(0, None, Some 2, None, None, False),
                    (2, Some 0, None, None, Some 2, True),
                    (1, Some 0, None, Some 1, None, True)], Some 0)
        \<and> getPhyParent 8 chain_skeleton s 2 = Inr (Some 2))
   \<and> (case create_bones 8 example_sdk fork_skeleton empty_ragdoll [11, 12, 10] of
         Inl f \<Rightarrow> False
       | Inr s \<Rightarrow>
           links s = ([(1, None, None, None, Some 2, False),
                       (2, Some 2, None, None, None, True),
                       (0, None, Some 1, Some 0, None, False)], Some 2)
           \<and> getPhyParent 8 fork_skeleton s 1 = Inr (Some 2)
           \<and> getPhyParent 8 fork_skeleton s 2 = Inr (Some 2))"
  by code_simp

text \<open>
  C8, where it fails. \<^verbatim>\<open>changeRagdollBoneJoint\<close> makes fixed, revolute and spherical
  joints; the \<^verbatim>\<open>switch\<close> of \<^verbatim>\<open>serializeRagdollJoint\<close> has the cases fixed, distance and
  revolute. Once \<^verbatim>\<open>changeRagdollBoneJoint\<close> has made the joint of a bone spherical,
  \<^verbatim>\<open>serializeRagdollJoint\<close> stops at \<^verbatim>\<open>ASSERT(false)\<close> on that bone, and
  \<^verbatim>\<open>serializeRagdollBone\<close> returns no stream for any tree that holds the bone: there is
  nothing to read back.
\<close>

theorem spherical_joint_not_serialized:
  assumes "changeRagdollBoneJoint k h b eSPHERICAL = Inr h'" and "b < length h"
    and "reach h' p b"
  shows "serializeRagdollJoint h' b = Inl AssertFailed
       \<and> serializeRagdollBone n h' p \<noteq> Inr blob"
proof -
  from changeRagdollBoneJoint_spherical [OF assms(1,2)] have
    j: "serializeRagdollJoint h' b = Inl AssertFailed"
    by (auto intro: spherical_joint_stops_serializer)
  with serializer_stops_below [OF assms(3)] show ?thesis by simp
qed

text \<open>The ragdoll of two bones: with the revolute joint that \<^verbatim>\<open>connect\<close> made, the
  tree is written and read back as it was; after \<^verbatim>\<open>changeRagdollBoneJoint\<close> made the
  joint spherical, the serializer stops at the assertion.\<close>

theorem spherical_joint_not_serialized_witness:
  "links two_bone_ragdoll =
     ([(0, None, Some 1, None, None, False), (1, Some 0, None, None, None, True)], Some 0)
   \<and> (case serializeRagdollBone 8 (heap two_bone_ragdoll) (Some 0) of
         Inl f \<Rightarrow> False
       | Inr blob \<Rightarrow>
           deserializeRagdollBone 8 example_sdk [] None blob = Inr (Some 0, heap two_bone_ragdoll, []))
   \<and> changeRagdollBoneJoint example_sdk (heap two_bone_ragdoll) 1 eSPHERICAL = Inr spherical_heap
   \<and> 1 < length (heap two_bone_ragdoll)
   \<and> reach spherical_heap (Some 0) 1
   \<and> serializeRagdollBone 8 spherical_heap (Some 0) = Inl AssertFailed"
proof -
  have a: "links two_bone_ragdoll =
     ([(0, None, Some 1, None, None, False), (1, Some 0, None, None, None, True)], Some 0)"
    by code_simp
  have rt: "(case serializeRagdollBone 8 (heap two_bone_ragdoll) (Some 0) of
         Inl f \<Rightarrow> False
       | Inr blob \<Rightarrow>
           deserializeRagdollBone 8 example_sdk [] None blob = Inr (Some 0, heap two_bone_ragdoll, []))"
    by code_simp
  have c: "changeRagdollBoneJoint example_sdk (heap two_bone_ragdoll) 1 eSPHERICAL = Inr spherical_heap"
    by code_simp
  have l: "1 < length (heap two_bone_ragdoll)"
    by code_simp
  have ch: "child (spherical_heap ! 0) = Some 1"
    by code_simp
  have r: "reach spherical_heap (Some 0) 1"
    by (rule reach.down) (simp add: ch reach.here)
  have s: "serializeRagdollBone 8 spherical_heap (Some 0) = Inl AssertFailed"
    by code_simp
  from spherical_joint_not_serialized [OF c l r, of 8] a rt c l r s show ?thesis by blast
qed

end
